theory Spec2Isabelle
  imports Main
begin

section \<open>Python values, errors and text rendering\<close>

text \<open>
  The writers of \<^verbatim>\<open>nrmllib/hazard/writers.py\<close> receive dynamically typed Python
  values. The values the writers handle are modelled by one datatype. The type
  parameter \<open>'f\<close> stands for Python's \<^verbatim>\<open>float\<close>: its text rendering is a
  built-in of the interpreter, so it is a parameter of the model, not a definition.
\<close>

datatype 'f pyval =
    PNone
  | PStr string
  | PInt int
  | PFloat 'f
  | PList "'f pyval list"

text \<open>The exceptions the writers raise, or let escape.\<close>

datatype py_error =
    ValueError string
  | KeyError string
  | AssertionError string
  | TypeError
  | IndexError

text \<open>
  What the model takes from outside \<^verbatim>\<open>writers.py\<close>: the interpreter's
  \<^verbatim>\<open>str\<close> on a float and on a list, and the GML namespace
  \<^verbatim>\<open>nrmllib.SERIALIZE_NS_MAP['gml']\<close>, a constant of the package's
  \<^verbatim>\<open>__init__.py\<close>.
\<close>

record 'f env =
  float_str :: "'f \<Rightarrow> string"
  list_str :: "'f pyval list \<Rightarrow> string"
  gml_ns :: string

definition digit :: "nat \<Rightarrow> char" where
  "digit d = ''0123456789'' ! d"

fun str_nat :: "nat \<Rightarrow> string" where
  "str_nat n = (if n < 10 then [digit n] else str_nat (n div 10) @ [digit (n mod 10)])"

declare str_nat.simps [simp del]

definition str_int :: "int \<Rightarrow> string" where
  "str_int i = (if i < 0 then ''-'' @ str_nat (nat (- i)) else str_nat (nat i))"

text \<open>Python's \<^verbatim>\<open>str(v)\<close>.\<close>

definition py_str :: "'f env \<Rightarrow> 'f pyval \<Rightarrow> string" where
  "py_str B v =
     (case v of
        PNone \<Rightarrow> ''None''
      | PStr s \<Rightarrow> s
      | PInt i \<Rightarrow> str_int i
      | PFloat x \<Rightarrow> float_str B x
      | PList xs \<Rightarrow> list_str B xs)"

text \<open>Python's \<^verbatim>\<open>sep.join(parts)\<close>.\<close>

fun join :: "string \<Rightarrow> string list \<Rightarrow> string" where
  "join sep [] = []"
| "join sep [s] = s"
| "join sep (s # t # ts) = s @ sep @ join sep (t # ts)"

text \<open>
  Iterating a value with \<^verbatim>\<open>for x in v\<close>: a list yields its items, a string its
  characters, anything else raises \<^verbatim>\<open>TypeError\<close>.
\<close>

definition py_iter :: "'f pyval \<Rightarrow> py_error + 'f pyval list" where
  "py_iter v =
     (case v of
        PList xs \<Rightarrow> Inr xs
      | PStr s \<Rightarrow> Inr (map (\<lambda>c. PStr [c]) s)
      | _ \<Rightarrow> Inl TypeError)"

section \<open>Metadata and its validation\<close>

text \<open>
  The keyword arguments \<^verbatim>\<open>**metadata\<close> are a dictionary with string keys.
  \<^verbatim>\<open>md.get(k)\<close> is \<^verbatim>\<open>None\<close> both for a missing key and for a key bound to
  \<^verbatim>\<open>None\<close>.
\<close>

type_synonym 'f metadata = "string \<rightharpoonup> 'f pyval"

definition md_get :: "'f metadata \<Rightarrow> string \<Rightarrow> 'f pyval" where
  "md_get md k = (case md k of None \<Rightarrow> PNone | Some v \<Rightarrow> v)"

text \<open>
  \<^verbatim>\<open>_validate_hazard_metadata(md)\<close>: five statements in sequence, the first that raises
  ends the function; \<open>Inr ()\<close> is a normal return.
\<close>

definition validate_hazard_metadata :: "'f metadata \<Rightarrow> py_error + unit" where
  "validate_hazard_metadata md =
     (if md_get md ''statistics'' \<noteq> PNone
         \<and> (md_get md ''smlt_path'' \<noteq> PNone \<or> md_get md ''gsimlt_path'' \<noteq> PNone)
      then Inl (ValueError ''Cannot specify both `statistics` and logic tree paths'')
      else
     (case (if md_get md ''statistics'' \<noteq> PNone
            then (if md_get md ''statistics'' \<notin> {PStr ''mean'', PStr ''quantile''}
                  then Inl (ValueError ''`statistics` must be either `mean` or `quantile`'')
                  else Inr ())
            else (if md_get md ''smlt_path'' = PNone \<or> md_get md ''gsimlt_path'' = PNone
                  then Inl (ValueError
                    ''Both logic tree paths are required for non-statistical results'')
                  else Inr ())) of
        Inl e \<Rightarrow> Inl e
      | Inr _ \<Rightarrow>
     (case (if md_get md ''statistics'' = PStr ''quantile''
            then (if md_get md ''quantile_value'' = PNone
                  then Inl (ValueError
                    ''quantile stastics results require a quantile value to be specified'')
                  else Inr ())
            else Inr ()) of
        Inl e \<Rightarrow> Inl e
      | Inr _ \<Rightarrow>
     (case (if \<not> md_get md ''statistics'' = PStr ''quantile''
            then (if md_get md ''quantile_value'' \<noteq> PNone
                  then Inl (ValueError
                    ''Quantile value must be specified with quantile statistics'')
                  else Inr ())
            else Inr ()) of
        Inl e \<Rightarrow> Inl e
      | Inr _ \<Rightarrow>
     (if md_get md ''imt'' = PStr ''SA''
      then (if md_get md ''sa_period'' = PNone
            then Inl (ValueError ''`sa_period` is required for IMT == `SA`'')
            else if md_get md ''sa_damping'' = PNone
            then Inl (ValueError ''`sa_damping` is required for IMT == `SA`'')
            else Inr ())
      else Inr ())))))"

section \<open>The document tree and its builder\<close>

text \<open>
  An \<^verbatim>\<open>lxml\<close> element: tag, attributes in insertion order, text, children. The
  namespace map given to the root element only declares prefixes and is left out.
\<close>

datatype xml =
  Element (tag: string) (attrib: "(string \<times> string) list") (elem_text: "string option")
    (children: "xml list")

text \<open>
  The writers build the tree by mutation: \<^verbatim>\<open>etree.SubElement(parent, tag)\<close> appends a
  fresh child to \<open>parent\<close> and returns a reference to it, and later calls change that
  child in place. The tree under construction is the state; a reference to an element
  is its position in the tree, the list of child indices leading to it from the root.
\<close>

type_synonym ref = "nat list"

fun elem_at :: "xml \<Rightarrow> ref \<Rightarrow> xml option" where
  "elem_at e [] = Some e"
| "elem_at e (i # p) =
     (if i < length (children e) then elem_at (children e ! i) p else None)"

fun modify_at :: "(xml \<Rightarrow> xml) \<Rightarrow> ref \<Rightarrow> xml \<Rightarrow> xml" where
  "modify_at f [] e = f e"
| "modify_at f (i # p) e =
     (if i < length (children e)
      then Element (tag e) (attrib e) (elem_text e)
             ((children e)[i := modify_at f p (children e ! i)])
      else e)"

text \<open>\<^verbatim>\<open>element.set(k, v)\<close> on the attributes: replace in place, or append.\<close>

fun attr_set :: "string \<Rightarrow> string \<Rightarrow> (string \<times> string) list \<Rightarrow> (string \<times> string) list" where
  "attr_set k v [] = [(k, v)]"
| "attr_set k v ((k', v') # kvs) =
     (if k' = k then (k, v) # kvs else (k', v') # attr_set k v kvs)"

definition append_child :: "xml \<Rightarrow> xml \<Rightarrow> xml" where
  "append_child c e = Element (tag e) (attrib e) (elem_text e) (children e @ [c])"

definition with_attr :: "string \<Rightarrow> string \<Rightarrow> xml \<Rightarrow> xml" where
  "with_attr k v e = Element (tag e) (attr_set k v (attrib e)) (elem_text e) (children e)"

definition with_text :: "string \<Rightarrow> xml \<Rightarrow> xml" where
  "with_text s e = Element (tag e) (attrib e) (Some s) (children e)"

text \<open>
  \<^verbatim>\<open>etree.SubElement(parent, tag)\<close>. A reference is only ever obtained from
  \<open>SubElement\<close> itself (or is the root), so the first case is never taken.
\<close>

definition SubElement :: "ref \<Rightarrow> string \<Rightarrow> xml \<Rightarrow> ref \<times> xml" where
  "SubElement parent tg root =
     (case elem_at root parent of
        None \<Rightarrow> (parent, root)
      | Some e \<Rightarrow>
          (parent @ [length (children e)],
           modify_at (append_child (Element tg [] None [])) parent root))"

definition set_attr :: "ref \<Rightarrow> string \<Rightarrow> string \<Rightarrow> xml \<Rightarrow> xml" where
  "set_attr r k v root = modify_at (with_attr k v) r root"

definition set_text :: "ref \<Rightarrow> string \<Rightarrow> xml \<Rightarrow> xml" where
  "set_text r s root = modify_at (with_text s) r root"

text \<open>A \<^verbatim>\<open>for\<close> loop whose body may raise: the first error ends the loop.\<close>

fun fold_err :: "('a \<Rightarrow> 's \<Rightarrow> py_error + 's) \<Rightarrow> 'a list \<Rightarrow> 's \<Rightarrow> py_error + 's" where
  "fold_err f [] s = Inr s"
| "fold_err f (a # as) s =
     (case f a s of Inl e \<Rightarrow> Inl e | Inr s' \<Rightarrow> fold_err f as s')"

subsection \<open>The output sink\<close>

text \<open>
  Every \<open>serialize\<close> has the shape
  \<^verbatim>\<open>with open(self.path, 'w') as fh: <build root>; fh.write(etree.tostring(root, ...))\<close>.
  Opening for writing truncates the file; an exception while the tree is built leaves
  it empty. A file that was written holds the rendering of one tree. The path is
  assumed writable.
\<close>

datatype file_content = Empty | Document xml

type_synonym fs = "string \<rightharpoonup> file_content"

definition write_document ::
  "string \<Rightarrow> (py_error + xml) \<Rightarrow> fs \<Rightarrow> (py_error + unit) \<times> fs" where
  "write_document p build files =
     (let files = files(p \<mapsto> Empty)
      in case build of
           Inl e \<Rightarrow> (Inl e, files)
         | Inr root \<Rightarrow> (Inr (), files(p \<mapsto> Document root)))"

section \<open>Attribute mapping\<close>

definition SM_TREE_PATH :: string where
  "SM_TREE_PATH = ''sourceModelTreePath''"

definition GSIM_TREE_PATH :: string where
  "GSIM_TREE_PATH = ''gsimTreePath''"

definition ATTR_MAP :: "(string \<times> string) list" where
  "ATTR_MAP =
     [(''statistics'', ''statistics''),
      (''quantile_value'', ''quantileValue''),
      (''smlt_path'', ''sourceModelTreePath''),
      (''gsimlt_path'', ''gsimTreePath''),
      (''imt'', ''IMT''),
      (''investigation_time'', ''investigationTime''),
      (''sa_period'', ''saPeriod''),
      (''sa_damping'', ''saDamping''),
      (''poe'', ''poE''),
      (''lon'', ''lon''),
      (''lat'', ''lat'')]"

text \<open>
  \<^verbatim>\<open>_set_metadata(element, metadata, attr_map, transform)\<close>. The transform may
  raise (the one of the disaggregation writer iterates its argument).
\<close>

fun set_metadata ::
  "ref \<Rightarrow> 'f metadata \<Rightarrow> (string \<times> string) list \<Rightarrow> ('f pyval \<Rightarrow> py_error + string)
     \<Rightarrow> xml \<Rightarrow> py_error + xml" where
  "set_metadata element md [] transform root = Inr root"
| "set_metadata element md ((kw, attr) # attr_map) transform root =
     (let v = md_get md kw
      in if v \<noteq> PNone
         then (case transform v of
                 Inl e \<Rightarrow> Inl e
               | Inr s \<Rightarrow> set_metadata element md attr_map transform (set_attr element attr s root))
         else set_metadata element md attr_map transform root)"

definition transform_str :: "'f env \<Rightarrow> 'f pyval \<Rightarrow> py_error + string" where
  "transform_str B v = Inr (py_str B v)"


section \<open>HazardCurveXMLWriter\<close>

text \<open>A location is the pair of its \<^verbatim>\<open>x\<close> and \<^verbatim>\<open>y\<close> attributes.\<close>

record 'f HazardCurve =
  poes :: "'f pyval list"
  location :: "'f pyval \<times> 'f pyval"

record 'f HazardCurveXMLWriter =
  path :: string
  metadata :: "'f metadata"

text \<open>\<^verbatim>\<open>HazardCurveXMLWriter.__init__\<close>: an exception means no writer exists.\<close>

definition HazardCurveXMLWriter_init ::
  "string \<Rightarrow> 'f metadata \<Rightarrow> py_error + 'f HazardCurveXMLWriter" where
  "HazardCurveXMLWriter_init p md =
     (case validate_hazard_metadata md of
        Inl e \<Rightarrow> Inl e
      | Inr _ \<Rightarrow> Inr \<lparr>path = p, metadata = md\<rparr>)"

text \<open>The body of \<^verbatim>\<open>for hc in data\<close>.\<close>

definition hazard_curve_body :: "'f env \<Rightarrow> ref \<Rightarrow> 'f HazardCurve \<Rightarrow> xml \<Rightarrow> xml" where
  "hazard_curve_body B hazard_curves hc root =
     (let (hc_elem, root) = SubElement hazard_curves ''hazardCurve'' root;
          (gml_point, root) = SubElement hc_elem (''{'' @ gml_ns B @ ''}Point'') root;
          (gml_pos, root) = SubElement gml_point (''{'' @ gml_ns B @ ''}pos'') root;
          root = set_text gml_pos
                   (py_str B (fst (HazardCurve.location hc)) @ '' ''
                      @ py_str B (snd (HazardCurve.location hc))) root;
          (poes_elem, root) = SubElement hc_elem ''poEs'' root;
          root = set_text poes_elem (join '' '' (map (py_str B) (poes hc))) root
      in root)"

text \<open>The tree that \<^verbatim>\<open>HazardCurveXMLWriter.serialize\<close> builds, or the exception.\<close>

definition hazard_curve_tree ::
  "'f env \<Rightarrow> 'f HazardCurveXMLWriter \<Rightarrow> 'f HazardCurve list \<Rightarrow> py_error + xml" where
  "hazard_curve_tree B w data =
     (let root = Element ''nrml'' [] None [];
          (hazard_curves, root) = SubElement [] ''hazardCurves'' root
      in case set_metadata hazard_curves (HazardCurveXMLWriter.metadata w) ATTR_MAP
                (transform_str B) root of
           Inl e \<Rightarrow> Inl e
         | Inr root \<Rightarrow>
             (let (imls_elem, root) = SubElement hazard_curves ''IMLs'' root
              in case HazardCurveXMLWriter.metadata w ''imls'' of
                   None \<Rightarrow> Inl (KeyError ''imls'')
                 | Some imls \<Rightarrow>
                     (case py_iter imls of
                        Inl e \<Rightarrow> Inl e
                      | Inr xs \<Rightarrow>
                          (let root = set_text imls_elem (join '' '' (map (py_str B) xs)) root
                           in Inr (fold (hazard_curve_body B hazard_curves) data root)))))"

definition HazardCurveXMLWriter_serialize ::
  "'f env \<Rightarrow> 'f HazardCurveXMLWriter \<Rightarrow> 'f HazardCurve list \<Rightarrow> fs
     \<Rightarrow> (py_error + unit) \<times> fs" where
  "HazardCurveXMLWriter_serialize B w data files =
     write_document (HazardCurveXMLWriter.path w) (hazard_curve_tree B w data) files"

section \<open>EventBasedGMFXMLWriter and ScenarioGMFXMLWriter\<close>

record 'f GMFNode =
  iml :: "'f pyval"
  location :: "'f pyval \<times> 'f pyval"

text \<open>Iterating a GMF yields its nodes; iterating a GMF set yields its GMFs.\<close>

record 'f GMF =
  imt :: string
  sa_period :: "'f pyval"
  sa_damping :: "'f pyval"
  nodes :: "'f GMFNode list"

record 'f GMFSet =
  investigation_time :: "'f pyval"
  gmfs :: "'f GMF list"

record EventBasedGMFXMLWriter =
  path :: string
  sm_lt_path :: "string option"
  gsim_lt_path :: "string option"

text \<open>\<^verbatim>\<open>EventBasedGMFXMLWriter.__init__\<close> stores its arguments and checks nothing.\<close>

definition EventBasedGMFXMLWriter_init ::
  "string \<Rightarrow> string option \<Rightarrow> string option \<Rightarrow> py_error + EventBasedGMFXMLWriter" where
  "EventBasedGMFXMLWriter_init p sm gsim =
     Inr \<lparr>path = p, sm_lt_path = sm, gsim_lt_path = gsim\<rparr>"

definition gmf_node_body :: "'f env \<Rightarrow> ref \<Rightarrow> 'f GMFNode \<Rightarrow> xml \<Rightarrow> xml" where
  "gmf_node_body B gmf_elem gmf_node root =
     (let (node_elem, root) = SubElement gmf_elem ''node'' root;
          root = set_attr node_elem ''iml'' (py_str B (GMFNode.iml gmf_node)) root;
          root = set_attr node_elem ''lon'' (py_str B (fst (GMFNode.location gmf_node))) root;
          root = set_attr node_elem ''lat'' (py_str B (snd (GMFNode.location gmf_node))) root
      in root)"

definition gmf_body :: "'f env \<Rightarrow> ref \<Rightarrow> 'f GMF \<Rightarrow> xml \<Rightarrow> xml" where
  "gmf_body B parent gmf root =
     (let (gmf_elem, root) = SubElement parent ''gmf'' root;
          root = set_attr gmf_elem ''IMT'' (imt gmf) root;
          root = (if imt gmf = ''SA''
                  then set_attr gmf_elem ''saDamping'' (py_str B (sa_damping gmf))
                         (set_attr gmf_elem ''saPeriod'' (py_str B (sa_period gmf)) root)
                  else root)
      in fold (gmf_node_body B gmf_elem) (nodes gmf) root)"

definition gmf_set_body :: "'f env \<Rightarrow> ref \<Rightarrow> 'f GMFSet \<Rightarrow> xml \<Rightarrow> xml" where
  "gmf_set_body B gmf_container gmf_set root =
     (let (gmf_set_elem, root) = SubElement gmf_container ''gmfSet'' root;
          root = set_attr gmf_set_elem ''investigationTime''
                   (py_str B (GMFSet.investigation_time gmf_set)) root
      in fold (gmf_body B gmf_set_elem) (gmfs gmf_set) root)"

definition event_based_gmf_tree ::
  "'f env \<Rightarrow> EventBasedGMFXMLWriter \<Rightarrow> 'f GMFSet list \<Rightarrow> xml" where
  "event_based_gmf_tree B w data =
     (let root = Element ''nrml'' [] None [];
          (gmf_container, root) =
            (case (EventBasedGMFXMLWriter.sm_lt_path w, EventBasedGMFXMLWriter.gsim_lt_path w) of
               (Some sm, Some gsim) \<Rightarrow>
                 (let (gmf_container, root) = SubElement [] ''gmfCollection'' root;
                      root = set_attr gmf_container SM_TREE_PATH sm root;
                      root = set_attr gmf_container GSIM_TREE_PATH gsim root
                  in (gmf_container, root))
             | _ \<Rightarrow> ([], root))
      in fold (gmf_set_body B gmf_container) data root)"

definition EventBasedGMFXMLWriter_serialize ::
  "'f env \<Rightarrow> EventBasedGMFXMLWriter \<Rightarrow> 'f GMFSet list \<Rightarrow> fs \<Rightarrow> (py_error + unit) \<times> fs" where
  "EventBasedGMFXMLWriter_serialize B w data files =
     write_document (EventBasedGMFXMLWriter.path w) (Inr (event_based_gmf_tree B w data)) files"

record ScenarioGMFXMLWriter =
  path :: string

definition ScenarioGMFXMLWriter_init :: "string \<Rightarrow> py_error + ScenarioGMFXMLWriter" where
  "ScenarioGMFXMLWriter_init p = Inr \<lparr>path = p\<rparr>"

definition scenario_gmf_tree :: "'f env \<Rightarrow> ScenarioGMFXMLWriter \<Rightarrow> 'f GMF list \<Rightarrow> xml" where
  "scenario_gmf_tree B w data =
     (let root = Element ''nrml'' [] None [];
          (gmfset, root) = SubElement [] ''gmfSet'' root
      in fold (gmf_body B gmfset) data root)"

definition ScenarioGMFXMLWriter_serialize ::
  "'f env \<Rightarrow> ScenarioGMFXMLWriter \<Rightarrow> 'f GMF list \<Rightarrow> fs \<Rightarrow> (py_error + unit) \<times> fs" where
  "ScenarioGMFXMLWriter_serialize B w data files =
     write_document (ScenarioGMFXMLWriter.path w) (Inr (scenario_gmf_tree B w data)) files"

section \<open>HazardMapXMLWriter\<close>

record 'f HazardMapXMLWriter =
  path :: string
  metadata :: "'f metadata"

definition HazardMapXMLWriter_init ::
  "string \<Rightarrow> 'f metadata \<Rightarrow> py_error + 'f HazardMapXMLWriter" where
  "HazardMapXMLWriter_init p md =
     (case validate_hazard_metadata md of
        Inl e \<Rightarrow> Inl e
      | Inr _ \<Rightarrow> Inr \<lparr>path = p, metadata = md\<rparr>)"

text \<open>The body of \<^verbatim>\<open>for lon, lat, iml in data\<close>.\<close>

definition hazard_map_body ::
  "'f env \<Rightarrow> ref \<Rightarrow> 'f pyval \<times> 'f pyval \<times> 'f pyval \<Rightarrow> xml \<Rightarrow> xml" where
  "hazard_map_body B hazard_map datum root =
     (case datum of (lon, lat, iml') \<Rightarrow>
        (let (node, root) = SubElement hazard_map ''node'' root;
             root = set_attr node ''lon'' (py_str B lon) root;
             root = set_attr node ''lat'' (py_str B lat) root;
             root = set_attr node ''iml'' (py_str B iml') root
         in root))"

definition hazard_map_tree ::
  "'f env \<Rightarrow> 'f HazardMapXMLWriter \<Rightarrow> ('f pyval \<times> 'f pyval \<times> 'f pyval) list
     \<Rightarrow> py_error + xml" where
  "hazard_map_tree B w data =
     (let root = Element ''nrml'' [] None [];
          (hazard_map, root) = SubElement [] ''hazardMap'' root
      in case set_metadata hazard_map (HazardMapXMLWriter.metadata w) ATTR_MAP
                (transform_str B) root of
           Inl e \<Rightarrow> Inl e
         | Inr root \<Rightarrow> Inr (fold (hazard_map_body B hazard_map) data root))"

definition HazardMapXMLWriter_serialize ::
  "'f env \<Rightarrow> 'f HazardMapXMLWriter \<Rightarrow> ('f pyval \<times> 'f pyval \<times> 'f pyval) list \<Rightarrow> fs
     \<Rightarrow> (py_error + unit) \<times> fs" where
  "HazardMapXMLWriter_serialize B w data files =
     write_document (HazardMapXMLWriter.path w) (hazard_map_tree B w data) files"


section \<open>SESXMLWriter\<close>

text \<open>
  A rupture carries all the attributes the writer may read. The three mesh components
  are 2D arrays, given as lists of rows; a corner is a triple (lon, lat, depth).
\<close>

record 'f Rupture =
  magnitude :: "'f pyval"
  strike :: "'f pyval"
  dip :: "'f pyval"
  rake :: "'f pyval"
  tectonic_region_type :: "'f pyval"
  is_from_fault_source :: bool
  lons :: "'f pyval list list"
  lats :: "'f pyval list list"
  depths :: "'f pyval list list"
  top_left_corner :: "'f pyval \<times> 'f pyval \<times> 'f pyval"
  top_right_corner :: "'f pyval \<times> 'f pyval \<times> 'f pyval"
  bottom_right_corner :: "'f pyval \<times> 'f pyval \<times> 'f pyval"
  bottom_left_corner :: "'f pyval \<times> 'f pyval \<times> 'f pyval"

text \<open>Iterating a stochastic event set yields its ruptures.\<close>

record 'f SES =
  investigation_time :: "'f pyval"
  ruptures :: "'f Rupture list"

record SESXMLWriter =
  path :: string
  sm_lt_path :: "string option"
  gsim_lt_path :: "string option"

definition SESXMLWriter_init ::
  "string \<Rightarrow> string option \<Rightarrow> string option \<Rightarrow> py_error + SESXMLWriter" where
  "SESXMLWriter_init p sm gsim = Inr \<lparr>path = p, sm_lt_path = sm, gsim_lt_path = gsim\<rparr>"

text \<open>\<^verbatim>\<open>g[i][j]\<close> for non-negative indices.\<close>

definition grid_get :: "'a list list \<Rightarrow> nat \<Rightarrow> nat \<Rightarrow> py_error + 'a" where
  "grid_get g i j =
     (if i < length g \<and> j < length (g ! i) then Inr (g ! i ! j) else Inl IndexError)"

text \<open>
  \<^verbatim>\<open>_create_rupture_mesh\<close>. The loop variables \<^verbatim>\<open>i\<close> and \<^verbatim>\<open>j\<close> are read after
  the loops; a variable that was never assigned is \<open>None\<close> (reading it raises
  \<^verbatim>\<open>NameError\<close>). The state of the inner loop is \<^verbatim>\<open>j\<close> and the tree, the state of
  the outer loop is \<^verbatim>\<open>i\<close>, \<^verbatim>\<open>j\<close> and the tree.
\<close>

definition mesh_node_body ::
  "'f env \<Rightarrow> 'f Rupture \<Rightarrow> ref \<Rightarrow> nat \<Rightarrow> nat \<times> 'f pyval \<Rightarrow> nat option \<times> xml
     \<Rightarrow> py_error + nat option \<times> xml" where
  "mesh_node_body B rupture mesh_elem i jcol st =
     (case jcol of (j, col) \<Rightarrow>
      case st of (_, root) \<Rightarrow>
        (let (node_elem, root) = SubElement mesh_elem ''node'' root;
             root = set_attr node_elem ''row'' (str_int (int i)) root;
             root = set_attr node_elem ''col'' (str_int (int j)) root
         in case grid_get (lons rupture) i j of
              Inl e \<Rightarrow> Inl e
            | Inr lon \<Rightarrow>
                (let root = set_attr node_elem ''lon'' (py_str B lon) root
                 in case grid_get (lats rupture) i j of
                      Inl e \<Rightarrow> Inl e
                    | Inr lat \<Rightarrow>
                        (let root = set_attr node_elem ''lat'' (py_str B lat) root
                         in case grid_get (depths rupture) i j of
                              Inl e \<Rightarrow> Inl e
                            | Inr depth \<Rightarrow>
                                Inr (Some j,
                                     set_attr node_elem ''depth'' (py_str B depth) root)))))"

definition mesh_row_body ::
  "'f env \<Rightarrow> 'f Rupture \<Rightarrow> ref \<Rightarrow> nat \<times> 'f pyval list \<Rightarrow> nat option \<times> nat option \<times> xml
     \<Rightarrow> py_error + nat option \<times> nat option \<times> xml" where
  "mesh_row_body B rupture mesh_elem irow st =
     (case irow of (i, row) \<Rightarrow>
      case st of (_, jvar, root) \<Rightarrow>
        (case fold_err (mesh_node_body B rupture mesh_elem i) (enumerate 0 row) (jvar, root) of
           Inl e \<Rightarrow> Inl e
         | Inr (jvar, root) \<Rightarrow> Inr (Some i, jvar, root)))"

definition create_rupture_mesh ::
  "'f env \<Rightarrow> 'f Rupture \<Rightarrow> ref \<Rightarrow> xml \<Rightarrow> py_error + xml" where
  "create_rupture_mesh B rupture rup_elem root =
     (let (mesh_elem, root) = SubElement rup_elem ''mesh'' root
      in case fold_err (mesh_row_body B rupture mesh_elem) (enumerate 0 (lons rupture))
                (None, None, root) of
           Inl e \<Rightarrow> Inl e
         | Inr (ivar, jvar, root) \<Rightarrow>
             (case ivar of
                None \<Rightarrow> Inl (ValueError ''Invalid rupture mesh'')
              | Some i \<Rightarrow>
                  (let root = set_attr mesh_elem ''rows'' (str_int (int i + 1)) root
                   in case jvar of
                        None \<Rightarrow> Inl (ValueError ''Invalid rupture mesh'')
                      | Some j \<Rightarrow>
                          Inr (set_attr mesh_elem ''cols'' (str_int (int j + 1)) root))))"

text \<open>\<^verbatim>\<open>_create_planar_surface\<close>: the body of its loop, and the loop over the four corners.\<close>

definition corner_body ::
  "'f env \<Rightarrow> ref \<Rightarrow> string \<times> 'f pyval \<times> 'f pyval \<times> 'f pyval \<Rightarrow> xml \<Rightarrow> xml" where
  "corner_body B ps_elem named_corner root =
     (case named_corner of (el_name, c0, c1, c2) \<Rightarrow>
        (let (corner_elem, root) = SubElement ps_elem el_name root;
             root = set_attr corner_elem ''lon'' (py_str B c0) root;
             root = set_attr corner_elem ''lat'' (py_str B c1) root;
             root = set_attr corner_elem ''depth'' (py_str B c2) root
         in root))"

definition create_planar_surface :: "'f env \<Rightarrow> 'f Rupture \<Rightarrow> ref \<Rightarrow> xml \<Rightarrow> xml" where
  "create_planar_surface B rupture rup_elem root =
     (let (ps_elem, root) = SubElement rup_elem ''planarSurface'' root
      in fold (corner_body B ps_elem)
           [(''topLeft'', top_left_corner rupture),
            (''topRight'', top_right_corner rupture),
            (''bottomRight'', bottom_right_corner rupture),
            (''bottomLeft'', bottom_left_corner rupture)] root)"

definition rupture_body :: "'f env \<Rightarrow> ref \<Rightarrow> 'f Rupture \<Rightarrow> xml \<Rightarrow> py_error + xml" where
  "rupture_body B ses_elem rupture root =
     (let (rup_elem, root) = SubElement ses_elem ''rupture'' root;
          root = set_attr rup_elem ''magnitude'' (py_str B (magnitude rupture)) root;
          root = set_attr rup_elem ''strike'' (py_str B (strike rupture)) root;
          root = set_attr rup_elem ''dip'' (py_str B (dip rupture)) root;
          root = set_attr rup_elem ''rake'' (py_str B (rake rupture)) root;
          root = set_attr rup_elem ''tectonicRegion''
                   (py_str B (tectonic_region_type rupture)) root
      in if is_from_fault_source rupture
         then create_rupture_mesh B rupture rup_elem root
         else Inr (create_planar_surface B rupture rup_elem root))"

definition ses_body :: "'f env \<Rightarrow> ref \<Rightarrow> 'f SES \<Rightarrow> xml \<Rightarrow> py_error + xml" where
  "ses_body B ses_container ses root =
     (let (ses_elem, root) = SubElement ses_container ''stochasticEventSet'' root;
          root = set_attr ses_elem ''investigationTime''
                   (py_str B (SES.investigation_time ses)) root
      in fold_err (rupture_body B ses_elem) (ruptures ses) root)"

definition ses_tree :: "'f env \<Rightarrow> SESXMLWriter \<Rightarrow> 'f SES list \<Rightarrow> py_error + xml" where
  "ses_tree B w data =
     (let root = Element ''nrml'' [] None [];
          (ses_container, root) =
            (case (SESXMLWriter.sm_lt_path w, SESXMLWriter.gsim_lt_path w) of
               (Some sm, Some gsim) \<Rightarrow>
                 (let (ses_container, root) =
                        SubElement [] ''stochasticEventSetCollection'' root;
                      root = set_attr ses_container SM_TREE_PATH sm root;
                      root = set_attr ses_container GSIM_TREE_PATH gsim root
                  in (ses_container, root))
             | _ \<Rightarrow> ([], root))
      in fold_err (ses_body B ses_container) data root)"

definition SESXMLWriter_serialize ::
  "'f env \<Rightarrow> SESXMLWriter \<Rightarrow> 'f SES list \<Rightarrow> fs \<Rightarrow> (py_error + unit) \<times> fs" where
  "SESXMLWriter_serialize B w data files =
     write_document (SESXMLWriter.path w) (ses_tree B w data) files"

section \<open>DisaggXMLWriter\<close>

text \<open>
  A numpy array as the writer sees it: its \<^verbatim>\<open>shape\<close> and the value at each
  multi-index.
\<close>

record 'f ndarray =
  shape :: "nat list"
  item :: "nat list \<Rightarrow> 'f pyval"

text \<open>
  Modelled from the spec: \<^verbatim>\<open>nrmllib.utils.ndenumerate\<close> is not among the sources.
  The spec describes it as the numeric table enumerator that, given an N-dimensional
  matrix, yields (index-tuple, value) pairs in a fixed canonical order covering every
  cell exactly once, the canonical row-major / lexicographic enumeration over all axes.
\<close>

definition ndenumerate :: "'f ndarray \<Rightarrow> (nat list \<times> 'f pyval) list" where
  "ndenumerate a =
     map (\<lambda>idxs. (idxs, item a idxs)) (product_lists (map (\<lambda>n. [0..<n]) (shape a)))"

record 'f DisaggResult =
  matrix :: "'f ndarray"
  dim_labels :: "string list"
  poe :: "'f pyval"
  iml :: "'f pyval"

record 'f DisaggXMLWriter =
  path :: string
  metadata :: "'f metadata"

definition BIN_EDGE_ATTR_MAP :: "(string \<times> string) list" where
  "BIN_EDGE_ATTR_MAP =
     [(''mag_bin_edges'', ''magBinEdges''),
      (''dist_bin_edges'', ''distBinEdges''),
      (''lon_bin_edges'', ''lonBinEdges''),
      (''lat_bin_edges'', ''latBinEdges''),
      (''eps_bin_edges'', ''epsBinEdges''),
      (''tectonic_region_types'', ''tectonicRegionTypes'')]"

definition DIM_LABEL_TO_BIN_EDGE_MAP :: "string \<rightharpoonup> string" where
  "DIM_LABEL_TO_BIN_EDGE_MAP =
     map_of
       [(''Mag'', ''mag_bin_edges''),
        (''Dist'', ''dist_bin_edges''),
        (''Lon'', ''lon_bin_edges''),
        (''Lat'', ''lat_bin_edges''),
        (''Eps'', ''eps_bin_edges''),
        (''TRT'', ''tectonic_region_types'')]"

definition DisaggXMLWriter_init ::
  "string \<Rightarrow> 'f metadata \<Rightarrow> py_error + 'f DisaggXMLWriter" where
  "DisaggXMLWriter_init p md =
     (case validate_hazard_metadata md of
        Inl e \<Rightarrow> Inl e
      | Inr _ \<Rightarrow> Inr \<lparr>path = p, metadata = md\<rparr>)"

text \<open>
  \<^verbatim>\<open>metadata.get(k)\<close> where \<open>k\<close> may be \<^verbatim>\<open>None\<close>: the keys of the keyword
  arguments are strings, so \<^verbatim>\<open>None\<close> is never among them.
\<close>

definition md_get_opt :: "'f metadata \<Rightarrow> string option \<Rightarrow> 'f pyval" where
  "md_get_opt md k = (case k of None \<Rightarrow> PNone | Some s \<Rightarrow> md_get md s)"

text \<open>\<^verbatim>\<open>"Writer is missing '%s' metadata" % bin_edge_attr\<close>\<close>

definition missing_message :: "string option \<Rightarrow> string" where
  "missing_message bin_edge_attr =
     ''Writer is missing '' @ [CHR 0x27]
       @ (case bin_edge_attr of None \<Rightarrow> ''None'' | Some s \<Rightarrow> s)
       @ [CHR 0x27] @ '' metadata''"

text \<open>
  The loop \<^verbatim>\<open>for label in result.dim_labels: ... assert ...\<close>. The \<^verbatim>\<open>assert\<close>
  is taken as executed (the interpreter does not run with \<^verbatim>\<open>-O\<close>).
\<close>

fun check_bin_edges :: "'f metadata \<Rightarrow> string list \<Rightarrow> py_error + unit" where
  "check_bin_edges md [] = Inr ()"
| "check_bin_edges md (label # labels) =
     (let bin_edge_attr = DIM_LABEL_TO_BIN_EDGE_MAP label
      in if md_get_opt md bin_edge_attr \<noteq> PNone
         then check_bin_edges md labels
         else Inl (AssertionError (missing_message bin_edge_attr)))"

text \<open>\<^verbatim>\<open>transform = lambda val: ', '.join([str(x) for x in val])\<close>\<close>

definition transform_join :: "'f env \<Rightarrow> 'f pyval \<Rightarrow> py_error + string" where
  "transform_join B val =
     (case py_iter val of
        Inl e \<Rightarrow> Inl e
      | Inr xs \<Rightarrow> Inr (join '', '' (map (py_str B) xs)))"

definition prob_body :: "'f env \<Rightarrow> ref \<Rightarrow> nat list \<times> 'f pyval \<Rightarrow> xml \<Rightarrow> xml" where
  "prob_body B diss_matrix cell root =
     (case cell of (idxs, v) \<Rightarrow>
        (let (prob, root) = SubElement diss_matrix ''prob'' root;
             index = join '','' (map (\<lambda>x. str_int (int x)) idxs);
             root = set_attr prob ''index'' index root;
             root = set_attr prob ''value'' (py_str B v) root
         in root))"

definition disagg_body ::
  "'f env \<Rightarrow> 'f metadata \<Rightarrow> ref \<Rightarrow> 'f DisaggResult \<Rightarrow> xml \<Rightarrow> py_error + xml" where
  "disagg_body B md diss_matrices result root =
     (let (diss_matrix, root) = SubElement diss_matrices ''disaggMatrix'' root
      in case check_bin_edges md (dim_labels result) of
           Inl e \<Rightarrow> Inl e
         | Inr _ \<Rightarrow>
             (let result_type = join '','' (dim_labels result);
                  root = set_attr diss_matrix ''type'' result_type root;
                  dims = join '','' (map (\<lambda>x. str_int (int x)) (shape (matrix result)));
                  root = set_attr diss_matrix ''dims'' dims root;
                  root = set_attr diss_matrix ''poE'' (py_str B (poe result)) root;
                  root = set_attr diss_matrix ''iml'' (py_str B (DisaggResult.iml result)) root
              in Inr (fold (prob_body B diss_matrix) (ndenumerate (matrix result)) root)))"

definition disagg_tree ::
  "'f env \<Rightarrow> 'f DisaggXMLWriter \<Rightarrow> 'f DisaggResult list \<Rightarrow> py_error + xml" where
  "disagg_tree B w data =
     (let root = Element ''nrml'' [] None [];
          (diss_matrices, root) = SubElement [] ''disaggMatrices'' root
      in case set_metadata diss_matrices (DisaggXMLWriter.metadata w) ATTR_MAP
                (transform_str B) root of
           Inl e \<Rightarrow> Inl e
         | Inr root \<Rightarrow>
             (case set_metadata diss_matrices (DisaggXMLWriter.metadata w) BIN_EDGE_ATTR_MAP
                     (transform_join B) root of
                Inl e \<Rightarrow> Inl e
              | Inr root \<Rightarrow>
                  fold_err (disagg_body B (DisaggXMLWriter.metadata w) diss_matrices)
                    data root))"

definition DisaggXMLWriter_serialize ::
  "'f env \<Rightarrow> 'f DisaggXMLWriter \<Rightarrow> 'f DisaggResult list \<Rightarrow> fs
     \<Rightarrow> (py_error + unit) \<times> fs" where
  "DisaggXMLWriter_serialize B w data files =
     write_document (DisaggXMLWriter.path w) (disagg_tree B w data) files"


section \<open>The documents, as functions of the input\<close>

text \<open>
  What each loop body and each writer builds, written as a function from the input to
  the element. The lemmas of the next section show that the builders above compute
  exactly these elements; the theorems are stated with them.
\<close>

text \<open>Several children appended at once, and the results of a loop that may raise.\<close>

definition append_children :: "xml list \<Rightarrow> xml \<Rightarrow> xml" where
  "append_children cs e = Element (tag e) (attrib e) (elem_text e) (children e @ cs)"

text \<open>The first error of a list of results, or all the values when there is none.\<close>

fun collect_err :: "(py_error + 'a) list \<Rightarrow> py_error + 'a list" where
  "collect_err [] = Inr []"
| "collect_err (r # rs) =
     (case r of
        Inl e \<Rightarrow> Inl e
      | Inr a \<Rightarrow> (case collect_err rs of Inl e \<Rightarrow> Inl e | Inr as \<Rightarrow> Inr (a # as)))"

text \<open>The element of one hazard curve, GMF node, GMF, GMF set and hazard-map triple.\<close>

definition hazard_curve_elem :: "'f env \<Rightarrow> 'f HazardCurve \<Rightarrow> xml" where
  "hazard_curve_elem B hc =
     Element ''hazardCurve'' [] None
       [Element (''{'' @ gml_ns B @ ''}Point'') [] None
          [Element (''{'' @ gml_ns B @ ''}pos'') []
             (Some (py_str B (fst (HazardCurve.location hc)) @ '' ''
                      @ py_str B (snd (HazardCurve.location hc)))) []],
        Element ''poEs'' [] (Some (join '' '' (map (py_str B) (poes hc)))) []]"

definition gmf_node_elem :: "'f env \<Rightarrow> 'f GMFNode \<Rightarrow> xml" where
  "gmf_node_elem B gmf_node =
     Element ''node''
       [(''iml'', py_str B (GMFNode.iml gmf_node)),
        (''lon'', py_str B (fst (GMFNode.location gmf_node))),
        (''lat'', py_str B (snd (GMFNode.location gmf_node)))] None []"

definition gmf_elem :: "'f env \<Rightarrow> 'f GMF \<Rightarrow> xml" where
  "gmf_elem B gmf =
     Element ''gmf''
       ((''IMT'', imt gmf)
          # (if imt gmf = ''SA''
             then [(''saPeriod'', py_str B (sa_period gmf)),
                   (''saDamping'', py_str B (sa_damping gmf))]
             else []))
       None (map (gmf_node_elem B) (nodes gmf))"

definition gmf_set_elem :: "'f env \<Rightarrow> 'f GMFSet \<Rightarrow> xml" where
  "gmf_set_elem B gmf_set =
     Element ''gmfSet''
       [(''investigationTime'', py_str B (GMFSet.investigation_time gmf_set))] None
       (map (gmf_elem B) (gmfs gmf_set))"

definition hazard_map_node :: "'f env \<Rightarrow> 'f pyval \<times> 'f pyval \<times> 'f pyval \<Rightarrow> xml" where
  "hazard_map_node B datum =
     (case datum of (lon, lat, iml') \<Rightarrow>
        Element ''node''
          [(''lon'', py_str B lon), (''lat'', py_str B lat), (''iml'', py_str B iml')] None [])"

text \<open>The planar surface of a rupture, and the cell of a disaggregation matrix.\<close>

definition corner_elem :: "'f env \<Rightarrow> string \<times> 'f pyval \<times> 'f pyval \<times> 'f pyval \<Rightarrow> xml" where
  "corner_elem B named_corner =
     (case named_corner of (el_name, c0, c1, c2) \<Rightarrow>
        Element el_name
          [(''lon'', py_str B c0), (''lat'', py_str B c1), (''depth'', py_str B c2)] None [])"

definition planar_surface_elem :: "'f env \<Rightarrow> 'f Rupture \<Rightarrow> xml" where
  "planar_surface_elem B rupture =
     Element ''planarSurface'' [] None
       (map (corner_elem B)
          [(''topLeft'', top_left_corner rupture),
           (''topRight'', top_right_corner rupture),
           (''bottomRight'', bottom_right_corner rupture),
           (''bottomLeft'', bottom_left_corner rupture)])"

definition prob_elem :: "'f env \<Rightarrow> nat list \<times> 'f pyval \<Rightarrow> xml" where
  "prob_elem B cell =
     (case cell of (idxs, v) \<Rightarrow>
        Element ''prob''
          [(''index'', join '','' (map (\<lambda>x. str_int (int x)) idxs)),
           (''value'', py_str B v)] None [])"

text \<open>
  The mesh of a rupture, for any lists of rows: the node of a cell (an index outside
  \<^verbatim>\<open>lats\<close> or \<^verbatim>\<open>depths\<close> raises), the nodes of a row, the value of \<^verbatim>\<open>j\<close> after the
  loops (the last column of the last row that has one), and the mesh element.
\<close>

definition mesh_node_elem :: "'f env \<Rightarrow> 'f Rupture \<Rightarrow> nat \<Rightarrow> nat \<Rightarrow> py_error + xml" where
  "mesh_node_elem B rupture i j =
     (case grid_get (lons rupture) i j of
        Inl e \<Rightarrow> Inl e
      | Inr lon \<Rightarrow>
          (case grid_get (lats rupture) i j of
             Inl e \<Rightarrow> Inl e
           | Inr lat \<Rightarrow>
               (case grid_get (depths rupture) i j of
                  Inl e \<Rightarrow> Inl e
                | Inr depth \<Rightarrow>
                    Inr (Element ''node''
                           [(''row'', str_int (int i)), (''col'', str_int (int j)),
                            (''lon'', py_str B lon), (''lat'', py_str B lat),
                            (''depth'', py_str B depth)] None []))))"

definition mesh_row_elems ::
  "'f env \<Rightarrow> 'f Rupture \<Rightarrow> nat \<times> 'f pyval list \<Rightarrow> py_error + xml list" where
  "mesh_row_elems B rupture irow =
     (case irow of (i, row) \<Rightarrow>
        collect_err (map (\<lambda>jcol. mesh_node_elem B rupture i (fst jcol)) (enumerate 0 row)))"

fun last_col :: "'a list list \<Rightarrow> nat option \<Rightarrow> nat option" where
  "last_col [] jvar = jvar"
| "last_col (row # rows) jvar =
     last_col rows (if row = [] then jvar else Some (length row - 1))"

definition mesh_elem :: "'f env \<Rightarrow> 'f Rupture \<Rightarrow> py_error + xml" where
  "mesh_elem B rupture =
     (case collect_err (map (mesh_row_elems B rupture) (enumerate 0 (lons rupture))) of
        Inl e \<Rightarrow> Inl e
      | Inr rows \<Rightarrow>
          (if lons rupture = [] then Inl (ValueError ''Invalid rupture mesh'')
           else case last_col (lons rupture) None of
                  None \<Rightarrow> Inl (ValueError ''Invalid rupture mesh'')
                | Some j \<Rightarrow>
                    Inr (Element ''mesh''
                           [(''rows'', str_int (int (length (lons rupture)))),
                            (''cols'', str_int (int j + 1))] None (concat rows))))"

text \<open>The element of one rupture and of one stochastic event set.\<close>

definition rupture_elem :: "'f env \<Rightarrow> 'f Rupture \<Rightarrow> py_error + xml" where
  "rupture_elem B rupture =
     map_sum id
       (\<lambda>geometry.
          Element ''rupture''
            [(''magnitude'', py_str B (magnitude rupture)),
             (''strike'', py_str B (strike rupture)),
             (''dip'', py_str B (dip rupture)),
             (''rake'', py_str B (rake rupture)),
             (''tectonicRegion'', py_str B (tectonic_region_type rupture))] None [geometry])
       (if is_from_fault_source rupture then mesh_elem B rupture
        else Inr (planar_surface_elem B rupture))"

definition ses_elem :: "'f env \<Rightarrow> 'f SES \<Rightarrow> py_error + xml" where
  "ses_elem B ses =
     map_sum id
       (Element ''stochasticEventSet''
          [(''investigationTime'', py_str B (SES.investigation_time ses))] None)
       (collect_err (map (rupture_elem B) (ruptures ses)))"

text \<open>The attributes of an element after \<^verbatim>\<open>_set_metadata\<close>, from those before.\<close>

fun metadata_attrs ::
  "'f metadata \<Rightarrow> (string \<times> string) list \<Rightarrow> ('f pyval \<Rightarrow> py_error + string)
     \<Rightarrow> (string \<times> string) list \<Rightarrow> py_error + (string \<times> string) list" where
  "metadata_attrs md [] transform attrs = Inr attrs"
| "metadata_attrs md ((kw, attr) # attr_map) transform attrs =
     (let v = md_get md kw
      in if v \<noteq> PNone
         then (case transform v of
                 Inl e \<Rightarrow> Inl e
               | Inr s \<Rightarrow> metadata_attrs md attr_map transform (attr_set attr s attrs))
         else metadata_attrs md attr_map transform attrs)"

text \<open>The element of one disaggregation result.\<close>

definition disagg_matrix_elem ::
  "'f env \<Rightarrow> 'f metadata \<Rightarrow> 'f DisaggResult \<Rightarrow> py_error + xml" where
  "disagg_matrix_elem B md result =
     map_sum id
       (\<lambda>_. Element ''disaggMatrix''
               [(''type'', join '','' (dim_labels result)),
                (''dims'', join '','' (map (\<lambda>x. str_int (int x)) (shape (matrix result)))),
                (''poE'', py_str B (poe result)),
                (''iml'', py_str B (DisaggResult.iml result))] None
               (map (prob_elem B) (ndenumerate (matrix result))))
       (check_bin_edges md (dim_labels result))"

text \<open>The collection wrapper of the event-based writers, or the bare root.\<close>

definition wrap_sets :: "string \<Rightarrow> string option \<Rightarrow> string option \<Rightarrow> xml list \<Rightarrow> xml" where
  "wrap_sets collection_tag sm gsim sets =
     (case (sm, gsim) of
        (Some s, Some g) \<Rightarrow>
          Element ''nrml'' [] None
            [Element collection_tag [(SM_TREE_PATH, s), (GSIM_TREE_PATH, g)] None sets]
      | _ \<Rightarrow> Element ''nrml'' [] None sets)"


section \<open>Vocabulary of the theorems\<close>

text \<open>
  The attributes that \<^verbatim>\<open>_set_metadata\<close> with the default transform puts on a fresh
  element: one per key of the attribute map with a non-\<^verbatim>\<open>None\<close> value, in map order.
\<close>

definition mapped_attrs ::
  "'f env \<Rightarrow> 'f metadata \<Rightarrow> (string \<times> string) list \<Rightarrow> (string \<times> string) list" where
  "mapped_attrs B md attr_map =
     map (\<lambda>(kw, attr). (attr, py_str B (md_get md kw)))
       (filter (\<lambda>(kw, attr). md_get md kw \<noteq> PNone) attr_map)"

text \<open>
  A 2D array with \<open>n\<close> rows and \<open>m\<close> columns, as a list of rows. The mesh components
  of a rupture are 2D arrays, so every row of one has the same length.
\<close>

definition has_shape :: "'a list list \<Rightarrow> nat \<Rightarrow> nat \<Rightarrow> bool" where
  "has_shape g n m \<longleftrightarrow> length g = n \<and> (\<forall>row \<in> set g. length row = m)"

text \<open>The node element of mesh cell \<open>(i, j)\<close>.\<close>

definition mesh_node :: "'f env \<Rightarrow> 'f Rupture \<Rightarrow> nat \<Rightarrow> nat \<Rightarrow> xml" where
  "mesh_node B rupture i j =
     Element ''node''
       [(''row'', str_int (int i)), (''col'', str_int (int j)),
        (''lon'', py_str B (lons rupture ! i ! j)),
        (''lat'', py_str B (lats rupture ! i ! j)),
        (''depth'', py_str B (depths rupture ! i ! j))] None []"

text \<open>
  Every bin-edge value the metadata supplies can be iterated (it is a list or a
  string), so rendering the container's bin-edge attributes does not raise.
\<close>

definition bin_edges_iterable :: "'f metadata \<Rightarrow> bool" where
  "bin_edges_iterable md \<longleftrightarrow>
     (\<forall>kw \<in> fst ` set BIN_EDGE_ATTR_MAP.
        md_get md kw \<noteq> PNone \<longrightarrow> py_iter (md_get md kw) \<noteq> Inl TypeError)"

text \<open>Every label maps to a bin-edge field that the metadata supplies.\<close>

definition labels_have_bin_edges :: "'f metadata \<Rightarrow> string list \<Rightarrow> bool" where
  "labels_have_bin_edges md labels \<longleftrightarrow>
     (\<forall>label \<in> set labels. md_get_opt md (DIM_LABEL_TO_BIN_EDGE_MAP label) \<noteq> PNone)"

section \<open>Reading a disaggregation matrix back\<close>

text \<open>
  The repository has no reader. To state that the \<^verbatim>\<open>dims\<close> and \<^verbatim>\<open>index\<close> attributes
  determine the matrix, the attributes are read back: a comma-joined list of decimal
  numbers is split at the commas (the empty text is the empty list, the shape of a
  0-dimensional array), and an absent attribute reads as the empty text.
\<close>

definition digit_val :: "char \<Rightarrow> nat" where
  "digit_val c = of_char c - 48"

definition parse_nat :: "string \<Rightarrow> nat" where
  "parse_nat s = foldl (\<lambda>acc c. 10 * acc + digit_val c) 0 s"

fun split_on :: "char \<Rightarrow> string \<Rightarrow> string list" where
  "split_on sep [] = [[]]"
| "split_on sep (c # cs) =
     (if c = sep then [] # split_on sep cs
      else (c # hd (split_on sep cs)) # tl (split_on sep cs))"

definition parse_indices :: "string \<Rightarrow> nat list" where
  "parse_indices s = (if s = [] then [] else map parse_nat (split_on (CHR '','') s))"

definition get_attr :: "xml \<Rightarrow> string \<Rightarrow> string" where
  "get_attr e k = (case map_of (attrib e) k of None \<Rightarrow> [] | Some v \<Rightarrow> v)"

definition decode_shape :: "xml \<Rightarrow> nat list" where
  "decode_shape el = parse_indices (get_attr el ''dims'')"

definition decode_cells :: "xml \<Rightarrow> (nat list \<rightharpoonup> string)" where
  "decode_cells el =
     map_of (map (\<lambda>c. (parse_indices (get_attr c ''index''), get_attr c ''value''))
               (children el))"

text \<open>A multi-index within a shape: as long as the shape, each component below its bound.\<close>

definition valid_index :: "nat list \<Rightarrow> nat list \<Rightarrow> bool" where
  "valid_index shp idxs \<longleftrightarrow> list_all2 (\<lambda>i n. i < n) idxs shp"

section \<open>Concrete inputs\<close>

text \<open>An environment and inputs for the examples; a float is given by its rendering.\<close>

definition example_env :: "string env" where
  "example_env =
     \<lparr>float_str = (\<lambda>s. s), list_str = (\<lambda>_. ''[...]''),
      gml_ns = ''http://www.opengis.net/gml''\<rparr>"

definition md_sa_mean :: "string metadata" where
  "md_sa_mean =
     [''statistics'' \<mapsto> PStr ''mean'', ''imt'' \<mapsto> PStr ''SA'',
      ''sa_period'' \<mapsto> PFloat ''0.1'', ''sa_damping'' \<mapsto> PFloat ''5.0'']"

definition md_pga_with_sa :: "string metadata" where
  "md_pga_with_sa =
     [''smlt_path'' \<mapsto> PStr ''b1'', ''gsimlt_path'' \<mapsto> PStr ''g1'',
      ''imt'' \<mapsto> PStr ''PGA'',
      ''sa_period'' \<mapsto> PFloat ''0.1'', ''sa_damping'' \<mapsto> PFloat ''5.0'']"

definition md_one_path :: "string metadata" where
  "md_one_path = [''smlt_path'' \<mapsto> PStr ''b1'']"

definition md_mean_with_path :: "string metadata" where
  "md_mean_with_path = [''statistics'' \<mapsto> PStr ''mean'', ''smlt_path'' \<mapsto> PStr ''b1'']"

definition md_no_imls :: "string metadata" where
  "md_no_imls =
     [''smlt_path'' \<mapsto> PStr ''b1'', ''gsimlt_path'' \<mapsto> PStr ''g1'',
      ''imt'' \<mapsto> PStr ''PGA'', ''investigation_time'' \<mapsto> PInt 50]"

definition md_scenario_A :: "'f \<Rightarrow> 'f \<Rightarrow> 'f \<Rightarrow> 'f metadata" where
  "md_scenario_A i1 i2 i3 =
     [''imt'' \<mapsto> PStr ''PGA'', ''smlt_path'' \<mapsto> PStr ''b1'', ''gsimlt_path'' \<mapsto> PStr ''g1'',
      ''investigation_time'' \<mapsto> PInt 50, ''imls'' \<mapsto> PList [PFloat i1, PFloat i2, PFloat i3]]"

definition example_gmf_set :: "string GMFSet" where
  "example_gmf_set =
     \<lparr>GMFSet.investigation_time = PFloat ''50.0'',
      gmfs = [\<lparr>imt = ''PGA'', sa_period = PNone, sa_damping = PNone,
               nodes = [\<lparr>GMFNode.iml = PFloat ''0.2'',
                         GMFNode.location = (PFloat ''1.0'', PFloat ''2.0'')\<rparr>]\<rparr>]\<rparr>"

definition example_planar_rupture :: "string Rupture" where
  "example_planar_rupture =
     \<lparr>magnitude = PFloat ''5.5'', strike = PFloat ''1.0'', dip = PFloat ''40.0'',
      rake = PFloat ''10.0'', tectonic_region_type = PStr ''Active Shallow Crust'',
      is_from_fault_source = False, lons = [], lats = [], depths = [],
      top_left_corner = (PFloat ''1.1'', PFloat ''1.0'', PFloat ''10.0''),
      top_right_corner = (PFloat ''1.1'', PFloat ''0.9'', PFloat ''10.0''),
      bottom_right_corner = (PFloat ''1.3'', PFloat ''0.9'', PFloat ''20.0''),
      bottom_left_corner = (PFloat ''1.3'', PFloat ''1.0'', PFloat ''20.0'')\<rparr>"

definition example_ses :: "string SES" where
  "example_ses =
     \<lparr>SES.investigation_time = PFloat ''50.0'', ruptures = [example_planar_rupture]\<rparr>"

definition example_mesh_rupture :: "string Rupture" where
  "example_mesh_rupture =
     \<lparr>magnitude = PFloat ''6.5'', strike = PFloat ''1.0'', dip = PFloat ''40.0'',
      rake = PFloat ''10.0'', tectonic_region_type = PStr ''Active Shallow Crust'',
      is_from_fault_source = True,
      lons = [[PFloat ''1.0'', PFloat ''1.1''], [PFloat ''1.0'', PFloat ''1.1'']],
      lats = [[PFloat ''2.0'', PFloat ''2.0''], [PFloat ''2.1'', PFloat ''2.1'']],
      depths = [[PFloat ''5.0'', PFloat ''5.0''], [PFloat ''9.0'', PFloat ''9.0'']],
      top_left_corner = (PNone, PNone, PNone), top_right_corner = (PNone, PNone, PNone),
      bottom_right_corner = (PNone, PNone, PNone),
      bottom_left_corner = (PNone, PNone, PNone)\<rparr>"

definition example_empty_mesh_rupture :: "string Rupture" where
  "example_empty_mesh_rupture =
     \<lparr>magnitude = PFloat ''6.5'', strike = PFloat ''1.0'', dip = PFloat ''40.0'',
      rake = PFloat ''10.0'', tectonic_region_type = PStr ''Active Shallow Crust'',
      is_from_fault_source = True, lons = [], lats = [], depths = [],
      top_left_corner = (PNone, PNone, PNone), top_right_corner = (PNone, PNone, PNone),
      bottom_right_corner = (PNone, PNone, PNone),
      bottom_left_corner = (PNone, PNone, PNone)\<rparr>"

definition md_mag_only :: "string metadata" where
  "md_mag_only =
     [''smlt_path'' \<mapsto> PStr ''b1'', ''gsimlt_path'' \<mapsto> PStr ''g1'',
      ''imt'' \<mapsto> PStr ''PGA'',
      ''mag_bin_edges'' \<mapsto> PList [PFloat ''5.0'', PFloat ''6.0'']]"

definition example_matrix :: "string ndarray" where
  "example_matrix =
     \<lparr>shape = [1, 2],
      item = (\<lambda>idxs. if idxs = [0, 0] then PFloat ''0.25'' else PFloat ''0.75'')\<rparr>"

definition example_result :: "string list \<Rightarrow> string DisaggResult" where
  "example_result labels =
     \<lparr>matrix = example_matrix, dim_labels = labels, poe = PFloat ''0.1'',
      DisaggResult.iml = PFloat ''0.2''\<rparr>"

text \<open>
  Python 2 (the source uses \<^verbatim>\<open>iteritems\<close>) renders a float with \<^verbatim>\<open>str\<close> to 12
  significant digits. With floats given by their \<^verbatim>\<open>repr\<close>: \<^verbatim>\<open>0.1 + 0.2\<close> has
  \<^verbatim>\<open>repr\<close> \<^verbatim>\<open>0.30000000000000004\<close> and \<^verbatim>\<open>str\<close> \<^verbatim>\<open>0.3\<close>, the same text as
  the float \<^verbatim>\<open>0.3\<close>. The environment below renders these two floats so, and every
  other float by its \<^verbatim>\<open>repr\<close>.
\<close>

definition python2_env :: "string env" where
  "python2_env =
     \<lparr>float_str = (\<lambda>r. if r = ''0.30000000000000004'' then ''0.3'' else r),
      list_str = (\<lambda>_. ''[...]''),
      gml_ns = ''http://www.opengis.net/gml''\<rparr>"

text \<open>A disaggregation result whose matrix has shape (1,) and holds one float.\<close>

definition result_of_value :: "string \<Rightarrow> string DisaggResult" where
  "result_of_value r =
     \<lparr>matrix = \<lparr>shape = [1], item = (\<lambda>idxs. PFloat r)\<rparr>, dim_labels = [''Mag''],
      poe = PFloat ''0.1'', DisaggResult.iml = PFloat ''0.2''\<rparr>"

section \<open>The builder computes the documents\<close>

subsection \<open>References into the tree\<close>

lemma elem_at_append:
  "elem_at e (p @ q) = (case elem_at e p of None \<Rightarrow> None | Some e' \<Rightarrow> elem_at e' q)"
  by (induction p arbitrary: e) auto

lemma elem_at_modify_at:
  "elem_at root p = Some e \<Longrightarrow> elem_at (modify_at f p root) p = Some (f e)"
  by (induction p arbitrary: root) (auto split: if_splits)

lemma modify_at_append:
  "modify_at f (p @ q) root = modify_at (modify_at f q) p root"
  by (induction p arbitrary: root) auto

lemma modify_at_modify_at:
  "modify_at f p (modify_at g p root) = modify_at (\<lambda>e. f (g e)) p root"
  by (induction p arbitrary: root) auto

lemma modify_at_cong_elem:
  "elem_at root p = Some e \<Longrightarrow> f e = g e \<Longrightarrow> modify_at f p root = modify_at g p root"
  by (induction p arbitrary: root) (auto split: if_splits)

lemma modify_at_ident:
  "elem_at root p = Some e \<Longrightarrow> f e = e \<Longrightarrow> modify_at f p root = root"
  by (induction p arbitrary: root) (auto split: if_splits simp: list_update_same_conv)

lemma SubElement_then:
  "elem_at root p = Some e \<Longrightarrow>
   SubElement p tg root =
     (p @ [length (children e)], modify_at (append_child (Element tg [] None [])) p root)"
  by (simp add: SubElement_def)

lemma elem_at_new_child:
  assumes "elem_at root p = Some e"
  shows "elem_at (modify_at (append_child c) p root) (p @ length (children e) # q) = elem_at c q"
  using assms by (simp add: elem_at_append elem_at_modify_at append_child_def)

lemma elem_at_new_child0:
  assumes "elem_at root p = Some e"
  shows "elem_at (modify_at (append_child c) p root) (p @ [length (children e)]) = Some c"
  using elem_at_new_child [OF assms, of c "[]"] by simp

lemma modify_new_child:
  assumes "elem_at root p = Some e"
  shows "modify_at f (p @ length (children e) # q) (modify_at (append_child c) p root)
       = modify_at (append_child (modify_at f q c)) p root"
proof -
  have "modify_at f (p @ length (children e) # q) (modify_at (append_child c) p root)
      = modify_at (\<lambda>e'. modify_at f (length (children e) # q) (append_child c e')) p root"
    by (simp add: modify_at_append modify_at_modify_at)
  also have "\<dots> = modify_at (append_child (modify_at f q c)) p root"
    using assms by (rule modify_at_cong_elem) (simp add: append_child_def)
  finally show ?thesis .
qed

lemma modify_new_child0:
  assumes "elem_at root p = Some e"
  shows "modify_at f (p @ [length (children e)]) (modify_at (append_child c) p root)
       = modify_at (append_child (f c)) p root"
  using modify_new_child [OF assms, of f "[]" c] by simp

lemma append_children_Nil: "append_children [] e = e"
  by (simp add: append_children_def)

lemma append_children_append_child:
  "append_children cs (append_child c e) = append_children (c # cs) e"
  by (simp add: append_children_def append_child_def)

lemma append_children_append_children:
  "append_children ds (append_children cs e) = append_children (cs @ ds) e"
  by (simp add: append_children_def)

subsection \<open>Loops that append one child per item\<close>

lemma fold_append_child:
  assumes body: "\<And>x root e. elem_at root p = Some e \<Longrightarrow>
                   body x root = modify_at (append_child (T x)) p root"
    and "elem_at root p = Some e"
  shows "fold body xs root = modify_at (append_children (map T xs)) p root"
  using assms(2)
proof (induction xs arbitrary: root e)
  case Nil
  then show ?case by (simp add: modify_at_ident append_children_Nil)
next
  case (Cons x xs)
  have "elem_at (modify_at (append_child (T x)) p root) p = Some (append_child (T x) e)"
    using Cons.prems by (rule elem_at_modify_at)
  from Cons.IH [OF this] show ?case
    using Cons.prems
    by (simp add: body modify_at_modify_at append_children_append_child)
qed

lemma fold_err_append_child:
  assumes body: "\<And>x root e. elem_at root p = Some e \<Longrightarrow>
      body x root = map_sum id (\<lambda>c. modify_at (append_child c) p root) (T x)"
    and "elem_at root p = Some e"
  shows "fold_err body xs root =
      map_sum id (\<lambda>cs. modify_at (append_children cs) p root) (collect_err (map T xs))"
  using assms(2)
proof (induction xs arbitrary: root e)
  case Nil
  then show ?case by (simp add: modify_at_ident append_children_Nil)
next
  case (Cons x xs)
  show ?case
  proof (cases "T x")
    case (Inl err)
    then show ?thesis using Cons.prems by (simp add: body)
  next
    case (Inr c)
    have "elem_at (modify_at (append_child c) p root) p = Some (append_child c e)"
      using Cons.prems by (rule elem_at_modify_at)
    from Cons.IH [OF this] show ?thesis
      using Cons.prems Inr
      by (cases "collect_err (map T xs)")
         (simp_all add: body modify_at_modify_at append_children_append_child)
  qed
qed

subsection \<open>The loop bodies\<close>

lemma hazard_map_body_eq:
  "elem_at root p = Some e \<Longrightarrow>
   hazard_map_body B p datum root = modify_at (append_child (hazard_map_node B datum)) p root"
  by (simp add: hazard_map_body_def hazard_map_node_def SubElement_then set_attr_def
      modify_new_child0 with_attr_def split: prod.splits)

lemma hazard_map_loop:
  "elem_at root p = Some e \<Longrightarrow>
   fold (hazard_map_body B p) data root
     = modify_at (append_children (map (hazard_map_node B) data)) p root"
  by (rule fold_append_child) (erule hazard_map_body_eq, assumption)

lemma gmf_node_body_eq:
  "elem_at root p = Some e \<Longrightarrow>
   gmf_node_body B p n root = modify_at (append_child (gmf_node_elem B n)) p root"
  by (simp add: gmf_node_body_def gmf_node_elem_def SubElement_then set_attr_def
      modify_new_child0 with_attr_def)

lemma gmf_node_loop:
  "elem_at root p = Some e \<Longrightarrow>
   fold (gmf_node_body B p) ns root
     = modify_at (append_children (map (gmf_node_elem B) ns)) p root"
  by (rule fold_append_child) (erule gmf_node_body_eq, assumption)

lemma corner_body_eq:
  "elem_at root p = Some e \<Longrightarrow>
   corner_body B p c root = modify_at (append_child (corner_elem B c)) p root"
  by (simp add: corner_body_def corner_elem_def SubElement_then set_attr_def
      modify_new_child0 with_attr_def split: prod.splits)

lemma corner_loop:
  "elem_at root p = Some e \<Longrightarrow>
   fold (corner_body B p) cs root
     = modify_at (append_children (map (corner_elem B) cs)) p root"
  by (rule fold_append_child) (erule corner_body_eq, assumption)

lemma prob_body_eq:
  "elem_at root p = Some e \<Longrightarrow>
   prob_body B p c root = modify_at (append_child (prob_elem B c)) p root"
  by (simp add: prob_body_def prob_elem_def SubElement_then set_attr_def
      modify_new_child0 with_attr_def split: prod.splits)

lemma prob_loop:
  "elem_at root p = Some e \<Longrightarrow>
   fold (prob_body B p) cs root
     = modify_at (append_children (map (prob_elem B) cs)) p root"
  by (rule fold_append_child) (erule prob_body_eq, assumption)

lemma hazard_curve_body_eq:
  "elem_at root p = Some e \<Longrightarrow>
   hazard_curve_body B p hc root = modify_at (append_child (hazard_curve_elem B hc)) p root"
  by (simp add: hazard_curve_body_def hazard_curve_elem_def SubElement_then set_text_def
      elem_at_new_child0 elem_at_new_child modify_new_child0 modify_new_child
      with_text_def append_child_def)

lemma hazard_curve_loop:
  "elem_at root p = Some e \<Longrightarrow>
   fold (hazard_curve_body B p) data root
     = modify_at (append_children (map (hazard_curve_elem B) data)) p root"
  by (rule fold_append_child) (erule hazard_curve_body_eq, assumption)

lemma gmf_body_eq:
  assumes "elem_at root p = Some e"
  shows "gmf_body B p g root = modify_at (append_child (gmf_elem B g)) p root"
  using assms
  by (simp add: gmf_body_def gmf_elem_def SubElement_then set_attr_def
      modify_new_child0 with_attr_def
      gmf_node_loop [OF elem_at_new_child0 [OF assms]] append_children_def)

lemma gmf_loop:
  "elem_at root p = Some e \<Longrightarrow>
   fold (gmf_body B p) gs root = modify_at (append_children (map (gmf_elem B) gs)) p root"
  by (rule fold_append_child) (erule gmf_body_eq, assumption)

lemma gmf_set_body_eq:
  assumes "elem_at root p = Some e"
  shows "gmf_set_body B p s root = modify_at (append_child (gmf_set_elem B s)) p root"
  using assms
  by (simp add: gmf_set_body_def gmf_set_elem_def SubElement_then set_attr_def
      modify_new_child0 with_attr_def
      gmf_loop [OF elem_at_new_child0 [OF assms]] append_children_def)

lemma gmf_set_loop:
  "elem_at root p = Some e \<Longrightarrow>
   fold (gmf_set_body B p) data root
     = modify_at (append_children (map (gmf_set_elem B) data)) p root"
  by (rule fold_append_child) (erule gmf_set_body_eq, assumption)

subsection \<open>The rupture geometry\<close>

lemma mesh_node_body_eq:
  "elem_at root p = Some e \<Longrightarrow>
   mesh_node_body B rup p i (j, col) (jv, root) =
     map_sum id (\<lambda>c. (Some j, modify_at (append_child c) p root)) (mesh_node_elem B rup i j)"
  by (simp add: mesh_node_body_def mesh_node_elem_def SubElement_then set_attr_def
      modify_new_child0 with_attr_def split: sum.splits)

lemma mesh_inner_loop:
  "elem_at root p = Some e \<Longrightarrow>
   fold_err (mesh_node_body B rup p i) (enumerate k row) (jv, root) =
     map_sum id
       (\<lambda>cs. (if row = [] then jv else Some (k + length row - 1),
              modify_at (append_children cs) p root))
       (collect_err (map (\<lambda>jcol. mesh_node_elem B rup i (fst jcol)) (enumerate k row)))"
proof (induction row arbitrary: k jv root e)
  case Nil
  then show ?case by (simp add: modify_at_ident append_children_Nil)
next
  case (Cons col row)
  show ?case
  proof (cases "mesh_node_elem B rup i k")
    case (Inl err)
    then show ?thesis using Cons.prems by (simp add: mesh_node_body_eq)
  next
    case (Inr c)
    have "elem_at (modify_at (append_child c) p root) p = Some (append_child c e)"
      using Cons.prems by (rule elem_at_modify_at)
    from Cons.IH [OF this, of "Suc k" "Some k"] show ?thesis
      using Cons.prems Inr
      by (cases "collect_err (map (\<lambda>jcol. mesh_node_elem B rup i (fst jcol)) (enumerate (Suc k) row))")
         (auto simp add: mesh_node_body_eq modify_at_modify_at append_children_append_child)
  qed
qed

lemma mesh_row_body_eq:
  "elem_at root p = Some e \<Longrightarrow>
   mesh_row_body B rup p (i, row) (iv, jv, root) =
     map_sum id
       (\<lambda>cs. (Some i, if row = [] then jv else Some (length row - 1),
              modify_at (append_children cs) p root))
       (mesh_row_elems B rup (i, row))"
  by (cases "collect_err (map (\<lambda>jcol. mesh_node_elem B rup i (fst jcol)) (enumerate 0 row))")
     (auto simp add: mesh_row_body_def mesh_row_elems_def mesh_inner_loop)

lemma mesh_outer_loop:
  "elem_at root p = Some e \<Longrightarrow>
   fold_err (mesh_row_body B rup p) (enumerate k rows) (iv, jv, root) =
     map_sum id
       (\<lambda>css. (if rows = [] then iv else Some (k + length rows - 1), last_col rows jv,
               modify_at (append_children (concat css)) p root))
       (collect_err (map (mesh_row_elems B rup) (enumerate k rows)))"
proof (induction rows arbitrary: k iv jv root e)
  case Nil
  then show ?case by (simp add: modify_at_ident append_children_Nil)
next
  case (Cons row rows)
  show ?case
  proof (cases "mesh_row_elems B rup (k, row)")
    case (Inl err)
    then show ?thesis using Cons.prems by (simp add: mesh_row_body_eq)
  next
    case (Inr cs)
    have "elem_at (modify_at (append_children cs) p root) p = Some (append_children cs e)"
      using Cons.prems by (rule elem_at_modify_at)
    from Cons.IH [OF this, of "Suc k" "Some k" "if row = [] then jv else Some (length row - 1)"]
    show ?thesis
      using Cons.prems Inr
      by (cases "collect_err (map (mesh_row_elems B rup) (enumerate (Suc k) rows))")
         (auto simp add: mesh_row_body_eq modify_at_modify_at append_children_append_children)
  qed
qed

lemma int_length_pred: "xs \<noteq> [] \<Longrightarrow> int (length xs - Suc 0) + 1 = int (length xs)"
  by (cases xs) simp_all

lemma create_rupture_mesh_eq:
  assumes "elem_at root p = Some e"
  shows "create_rupture_mesh B rup p root =
     map_sum id (\<lambda>c. modify_at (append_child c) p root) (mesh_elem B rup)"
  using assms
  by (auto simp add: create_rupture_mesh_def mesh_elem_def SubElement_then set_attr_def
      mesh_outer_loop [OF elem_at_new_child0 [OF assms]] modify_new_child0
      with_attr_def append_children_def int_length_pred
      split: sum.splits option.splits)

lemma create_planar_surface_eq:
  assumes "elem_at root p = Some e"
  shows "create_planar_surface B rup p root =
     modify_at (append_child (planar_surface_elem B rup)) p root"
  using assms
  by (simp add: create_planar_surface_def planar_surface_elem_def SubElement_then
      corner_loop [OF elem_at_new_child0 [OF assms]]
      modify_new_child0 append_children_def
      del: fold.simps)

lemma rupture_body_eq:
  assumes "elem_at root p = Some e"
  shows "rupture_body B p rup root =
     map_sum id (\<lambda>c. modify_at (append_child c) p root) (rupture_elem B rup)"
  using assms
  by (cases "mesh_elem B rup")
     (simp_all add: rupture_body_def rupture_elem_def SubElement_then set_attr_def
      create_rupture_mesh_eq [OF elem_at_new_child0 [OF assms]]
      create_planar_surface_eq [OF elem_at_new_child0 [OF assms]]
      modify_new_child0 with_attr_def append_child_def)

lemma rupture_loop:
  "elem_at root p = Some e \<Longrightarrow>
   fold_err (rupture_body B p) rs root =
     map_sum id (\<lambda>cs. modify_at (append_children cs) p root)
       (collect_err (map (rupture_elem B) rs))"
  by (rule fold_err_append_child) (erule rupture_body_eq, assumption)

lemma ses_body_eq:
  assumes "elem_at root p = Some e"
  shows "ses_body B p ses root =
     map_sum id (\<lambda>c. modify_at (append_child c) p root) (ses_elem B ses)"
  using assms
  by (cases "collect_err (map (rupture_elem B) (ruptures ses))")
     (simp_all add: ses_body_def ses_elem_def SubElement_then set_attr_def
      rupture_loop [OF elem_at_new_child0 [OF assms]]
      modify_new_child0 with_attr_def append_children_def)

lemma ses_loop:
  "elem_at root p = Some e \<Longrightarrow>
   fold_err (ses_body B p) data root =
     map_sum id (\<lambda>cs. modify_at (append_children cs) p root)
       (collect_err (map (ses_elem B) data))"
  by (rule fold_err_append_child) (erule ses_body_eq, assumption)

subsection \<open>Metadata attributes\<close>

lemma set_metadata_eq:
  "elem_at root p = Some e \<Longrightarrow>
   set_metadata p md am tr root =
     map_sum id (\<lambda>a. modify_at (\<lambda>e. Element (tag e) a (elem_text e) (children e)) p root)
       (metadata_attrs md am tr (attrib e))"
proof (induction am arbitrary: root e)
  case Nil
  then show ?case by (simp add: modify_at_ident)
next
  case (Cons ka am)
  obtain kw attr where ka: "ka = (kw, attr)" by (cases ka)
  show ?case
  proof (cases "md_get md kw \<noteq> PNone")
    case False
    then show ?thesis using Cons ka by simp
  next
    case True
    show ?thesis
    proof (cases "tr (md_get md kw)")
      case (Inl err)
      then show ?thesis using True ka by simp
    next
      case (Inr s)
      have "elem_at (set_attr p attr s root) p = Some (with_attr attr s e)"
        using Cons.prems by (simp add: set_attr_def elem_at_modify_at)
      from Cons.IH [OF this] show ?thesis
        using True ka Inr
        by (simp add: set_attr_def modify_at_modify_at with_attr_def)
    qed
  qed
qed

lemma metadata_attrs_str:
  "\<exists>a. metadata_attrs md am (transform_str B) attrs = Inr a"
  by (induction am arbitrary: attrs) (auto simp: transform_str_def Let_def)

subsection \<open>The disaggregation matrices\<close>

lemma disagg_body_eq:
  assumes "elem_at root p = Some e"
  shows "disagg_body B md p result root =
     map_sum id (\<lambda>c. modify_at (append_child c) p root) (disagg_matrix_elem B md result)"
  using assms
  by (cases "check_bin_edges md (dim_labels result)")
     (simp_all add: disagg_body_def disagg_matrix_elem_def SubElement_then set_attr_def
      prob_loop [OF elem_at_new_child0 [OF assms]]
      modify_new_child0 with_attr_def append_children_def)

lemma disagg_loop:
  "elem_at root p = Some e \<Longrightarrow>
   fold_err (disagg_body B md p) data root =
     map_sum id (\<lambda>cs. modify_at (append_children cs) p root)
       (collect_err (map (disagg_matrix_elem B md) data))"
  by (rule fold_err_append_child) (erule disagg_body_eq, assumption)

subsection \<open>The writers\<close>

lemma container_at:
  "elem_at (Element ''nrml'' [] None [Element t a x cs]) [0] = Some (Element t a x cs)"
  by simp

lemma hazard_map_tree_eq:
  "hazard_map_tree B w data =
     map_sum id
       (\<lambda>a. Element ''nrml'' [] None
               [Element ''hazardMap'' a None (map (hazard_map_node B) data)])
       (metadata_attrs (HazardMapXMLWriter.metadata w) ATTR_MAP (transform_str B) [])"
  by (cases "metadata_attrs (HazardMapXMLWriter.metadata w) ATTR_MAP (transform_str B) []")
     (simp_all add: hazard_map_tree_def SubElement_def append_child_def
        set_metadata_eq [OF container_at] hazard_map_loop [OF container_at]
        append_children_def)

lemma hazard_curve_tree_eq:
  "hazard_curve_tree B w data =
     (case metadata_attrs (HazardCurveXMLWriter.metadata w) ATTR_MAP (transform_str B) [] of
        Inl e \<Rightarrow> Inl e
      | Inr a \<Rightarrow>
          (case HazardCurveXMLWriter.metadata w ''imls'' of
             None \<Rightarrow> Inl (KeyError ''imls'')
           | Some imls \<Rightarrow>
               (case py_iter imls of
                  Inl e \<Rightarrow> Inl e
                | Inr xs \<Rightarrow>
                    Inr (Element ''nrml'' [] None
                          [Element ''hazardCurves'' a None
                             (Element ''IMLs'' [] (Some (join '' '' (map (py_str B) xs))) []
                                # map (hazard_curve_elem B) data)]))))"
  by (simp add: hazard_curve_tree_def SubElement_def append_child_def
        set_metadata_eq [OF container_at] hazard_curve_loop [OF container_at]
        append_children_def set_text_def with_text_def
        split: sum.splits option.splits)

lemma event_based_gmf_tree_eq:
  "event_based_gmf_tree B w data =
     wrap_sets ''gmfCollection'' (EventBasedGMFXMLWriter.sm_lt_path w)
       (EventBasedGMFXMLWriter.gsim_lt_path w) (map (gmf_set_elem B) data)"
proof -
  have at0: "elem_at (Element ''nrml'' [] None []) [] = Some (Element ''nrml'' [] None [])"
    by simp
  show ?thesis
    by (simp add: event_based_gmf_tree_def wrap_sets_def SubElement_def append_child_def
          set_attr_def with_attr_def SM_TREE_PATH_def GSIM_TREE_PATH_def
          gmf_set_loop [OF container_at] gmf_set_loop [OF at0]
          append_children_def
          split: option.splits)
qed

lemma scenario_gmf_tree_eq:
  "scenario_gmf_tree B w data =
     Element ''nrml'' [] None [Element ''gmfSet'' [] None (map (gmf_elem B) data)]"
  by (simp add: scenario_gmf_tree_def SubElement_def append_child_def
        gmf_loop [OF container_at] append_children_def)

lemma ses_tree_eq:
  "ses_tree B w data =
     map_sum id
       (wrap_sets ''stochasticEventSetCollection'' (SESXMLWriter.sm_lt_path w)
          (SESXMLWriter.gsim_lt_path w))
       (collect_err (map (ses_elem B) data))"
proof -
  have at0: "elem_at (Element ''nrml'' [] None []) [] = Some (Element ''nrml'' [] None [])"
    by simp
  show ?thesis
    by (cases "SESXMLWriter.sm_lt_path w"; cases "SESXMLWriter.gsim_lt_path w";
        cases "collect_err (map (ses_elem B) data)")
       (simp_all add: ses_tree_def wrap_sets_def SubElement_def append_child_def
          set_attr_def with_attr_def SM_TREE_PATH_def GSIM_TREE_PATH_def
          ses_loop [OF container_at] ses_loop [OF at0]
          append_children_def)
qed

lemma disagg_tree_eq:
  "disagg_tree B w data =
     (case metadata_attrs (DisaggXMLWriter.metadata w) ATTR_MAP (transform_str B) [] of
        Inl e \<Rightarrow> Inl e
      | Inr a \<Rightarrow>
          (case metadata_attrs (DisaggXMLWriter.metadata w) BIN_EDGE_ATTR_MAP
                  (transform_join B) a of
             Inl e \<Rightarrow> Inl e
           | Inr a' \<Rightarrow>
               map_sum id
                 (\<lambda>ms. Element ''nrml'' [] None [Element ''disaggMatrices'' a' None ms])
                 (collect_err
                    (map (disagg_matrix_elem B (DisaggXMLWriter.metadata w)) data))))"
  by (cases "collect_err (map (disagg_matrix_elem B (DisaggXMLWriter.metadata w)) data)")
     (simp_all add: disagg_tree_def SubElement_def append_child_def
        set_metadata_eq [OF container_at] disagg_loop [OF container_at]
        append_children_def
        split: sum.splits)

section \<open>Metadata validation\<close>

text \<open>
  C1 (as amended). \<^verbatim>\<open>_validate_hazard_metadata\<close> returns normally if and only if
  exactly one of the two metadata shapes holds (statistics is \<^verbatim>\<open>'mean'\<close> or
  \<^verbatim>\<open>'quantile'\<close> and both logic-tree paths are absent; both logic-tree paths are set
  and statistics is absent), the quantile value is present exactly when statistics is
  \<^verbatim>\<open>'quantile'\<close>, and \<^verbatim>\<open>sa_period\<close> and \<^verbatim>\<open>sa_damping\<close> are both present whenever
  the IMT is \<^verbatim>\<open>'SA'\<close>. Otherwise it raises \<^verbatim>\<open>ValueError\<close>. Nothing is required of
  \<^verbatim>\<open>sa_period\<close> and \<^verbatim>\<open>sa_damping\<close> when the IMT is not \<^verbatim>\<open>'SA'\<close>.
\<close>

theorem validate_hazard_metadata_iff:
  "(validate_hazard_metadata md = Inr () \<longleftrightarrow>
      ((md_get md ''statistics'' \<in> {PStr ''mean'', PStr ''quantile''}
          \<and> md_get md ''smlt_path'' = PNone \<and> md_get md ''gsimlt_path'' = PNone)
        \<noteq> (md_get md ''smlt_path'' \<noteq> PNone \<and> md_get md ''gsimlt_path'' \<noteq> PNone
          \<and> md_get md ''statistics'' = PNone))
      \<and> (md_get md ''quantile_value'' \<noteq> PNone \<longleftrightarrow> md_get md ''statistics'' = PStr ''quantile'')
      \<and> (md_get md ''imt'' = PStr ''SA'' \<longrightarrow>
            md_get md ''sa_period'' \<noteq> PNone \<and> md_get md ''sa_damping'' \<noteq> PNone))
   \<and> (validate_hazard_metadata md \<noteq> Inr () \<longrightarrow>
        (\<exists>msg. validate_hazard_metadata md = Inl (ValueError msg)))"
  unfolding validate_hazard_metadata_def by auto

text \<open>A mean result for spectral acceleration, with period and damping, is valid.\<close>

theorem validate_hazard_metadata_iff_witness:
  "md_get md_sa_mean ''imt'' = PStr ''SA'' \<and> validate_hazard_metadata md_sa_mean = Inr ()"
  using validate_hazard_metadata_iff [of md_sa_mean]
  by (simp add: md_sa_mean_def md_get_def)

text \<open>
  C1 as stated fails: metadata for peak ground acceleration that also carries
  \<^verbatim>\<open>sa_period\<close> and \<^verbatim>\<open>sa_damping\<close> passes validation.
\<close>

theorem validate_sa_iff_counterexample:
  "validate_hazard_metadata md_pga_with_sa = Inr ()
   \<and> md_get md_pga_with_sa ''sa_period'' \<noteq> PNone
   \<and> md_get md_pga_with_sa ''sa_damping'' \<noteq> PNone
   \<and> md_get md_pga_with_sa ''imt'' \<noteq> PStr ''SA''"
  by (simp add: validate_hazard_metadata_def md_pga_with_sa_def md_get_def)

section \<open>Construction\<close>

text \<open>
  C2 (as amended). The three writers that take a metadata record
  (\<^verbatim>\<open>HazardCurveXMLWriter\<close>, \<^verbatim>\<open>HazardMapXMLWriter\<close>, \<^verbatim>\<open>DisaggXMLWriter\<close>) validate it
  at construction: when the validator raises, the constructor raises the same error and
  no writer exists on which \<^verbatim>\<open>serialize\<close> could be called; when it returns, the
  writer is constructed. The constructors of \<^verbatim>\<open>EventBasedGMFXMLWriter\<close>,
  \<^verbatim>\<open>SESXMLWriter\<close> and \<^verbatim>\<open>ScenarioGMFXMLWriter\<close> take no metadata record, validate
  nothing and always succeed.
\<close>

theorem construction_validates:
  "(validate_hazard_metadata md = Inl e \<longrightarrow>
      HazardCurveXMLWriter_init p md = Inl e
      \<and> HazardMapXMLWriter_init p md = Inl e
      \<and> DisaggXMLWriter_init p md = Inl e)
   \<and> (validate_hazard_metadata md = Inr () \<longrightarrow>
      HazardCurveXMLWriter_init p md
        = Inr \<lparr>HazardCurveXMLWriter.path = p, HazardCurveXMLWriter.metadata = md\<rparr>
      \<and> HazardMapXMLWriter_init p md
        = Inr \<lparr>HazardMapXMLWriter.path = p, HazardMapXMLWriter.metadata = md\<rparr>
      \<and> DisaggXMLWriter_init p md
        = Inr \<lparr>DisaggXMLWriter.path = p, DisaggXMLWriter.metadata = md\<rparr>)
   \<and> EventBasedGMFXMLWriter_init p sm gsim
        = Inr \<lparr>EventBasedGMFXMLWriter.path = p, EventBasedGMFXMLWriter.sm_lt_path = sm,
               EventBasedGMFXMLWriter.gsim_lt_path = gsim\<rparr>
   \<and> SESXMLWriter_init p sm gsim
        = Inr \<lparr>SESXMLWriter.path = p, SESXMLWriter.sm_lt_path = sm,
               SESXMLWriter.gsim_lt_path = gsim\<rparr>
   \<and> ScenarioGMFXMLWriter_init p = Inr \<lparr>ScenarioGMFXMLWriter.path = p\<rparr>"
  by (simp add: HazardCurveXMLWriter_init_def HazardMapXMLWriter_init_def
      DisaggXMLWriter_init_def EventBasedGMFXMLWriter_init_def SESXMLWriter_init_def
      ScenarioGMFXMLWriter_init_def)

text \<open>
  Scenario B: statistics \<^verbatim>\<open>'mean'\<close> together with a source-model path is rejected by
  the three constructors; valid metadata constructs a writer.
\<close>

theorem construction_validates_witness:
  "validate_hazard_metadata md_mean_with_path =
     Inl (ValueError ''Cannot specify both `statistics` and logic tree paths'')
   \<and> HazardCurveXMLWriter_init ''out.xml'' md_mean_with_path =
     Inl (ValueError ''Cannot specify both `statistics` and logic tree paths'')
   \<and> HazardMapXMLWriter_init ''out.xml'' md_mean_with_path =
     Inl (ValueError ''Cannot specify both `statistics` and logic tree paths'')
   \<and> DisaggXMLWriter_init ''out.xml'' md_mean_with_path =
     Inl (ValueError ''Cannot specify both `statistics` and logic tree paths'')
   \<and> validate_hazard_metadata md_sa_mean = Inr ()
   \<and> HazardCurveXMLWriter_init ''out.xml'' md_sa_mean
       = Inr \<lparr>HazardCurveXMLWriter.path = ''out.xml'', HazardCurveXMLWriter.metadata = md_sa_mean\<rparr>"
proof -
  have bad: "validate_hazard_metadata md_mean_with_path =
      Inl (ValueError ''Cannot specify both `statistics` and logic tree paths'')"
    by (simp add: validate_hazard_metadata_def md_mean_with_path_def md_get_def)
  have good: "validate_hazard_metadata md_sa_mean = Inr ()"
    by (simp add: validate_hazard_metadata_def md_sa_mean_def md_get_def)
  show ?thesis
    using construction_validates [of md_mean_with_path _ "''out.xml''"]
      construction_validates [of md_sa_mean _ "''out.xml''"] bad good
    by simp
qed

text \<open>
  C2 as stated fails for the event-based writer: with only one logic-tree path (a
  combination the validator rejects) construction succeeds and \<^verbatim>\<open>serialize\<close> writes a
  document.
\<close>

theorem event_based_no_validation_counterexample:
  "validate_hazard_metadata md_one_path =
     Inl (ValueError ''Both logic tree paths are required for non-statistical results'')
   \<and> EventBasedGMFXMLWriter_init ''out.xml'' (Some ''b1'') None =
     Inr \<lparr>EventBasedGMFXMLWriter.path = ''out.xml'', EventBasedGMFXMLWriter.sm_lt_path = Some ''b1'',
          EventBasedGMFXMLWriter.gsim_lt_path = None\<rparr>
   \<and> EventBasedGMFXMLWriter_serialize example_env
        \<lparr>EventBasedGMFXMLWriter.path = ''out.xml'', EventBasedGMFXMLWriter.sm_lt_path = Some ''b1'',
          EventBasedGMFXMLWriter.gsim_lt_path = None\<rparr> [] Map.empty =
     (Inr (), [''out.xml'' \<mapsto> Document (Element ''nrml'' [] None [])])"
  by (simp add: validate_hazard_metadata_def md_one_path_def md_get_def
      EventBasedGMFXMLWriter_init_def EventBasedGMFXMLWriter_serialize_def
      write_document_def event_based_gmf_tree_def)

section \<open>A hazard-curve writer without intensity measure levels\<close>

text \<open>
  C9. For every metadata record that passes the validator and has no \<^verbatim>\<open>imls\<close> key,
  \<^verbatim>\<open>HazardCurveXMLWriter\<close> is constructed; \<^verbatim>\<open>serialize\<close> then raises
  \<^verbatim>\<open>KeyError('imls')\<close>, after the output file was opened for writing: the file is left
  empty.
\<close>

theorem missing_imls:
  assumes "validate_hazard_metadata md = Inr ()" and "md ''imls'' = None"
  shows "HazardCurveXMLWriter_init p md = Inr \<lparr>HazardCurveXMLWriter.path = p, HazardCurveXMLWriter.metadata = md\<rparr>
    \<and> HazardCurveXMLWriter_serialize B \<lparr>HazardCurveXMLWriter.path = p, HazardCurveXMLWriter.metadata = md\<rparr> data files
        = (Inl (KeyError ''imls''), files(p \<mapsto> Empty))"
proof -
  obtain a where "metadata_attrs md ATTR_MAP (transform_str B) [] = Inr a"
    using metadata_attrs_str by blast
  then show ?thesis
    using assms
    by (simp add: HazardCurveXMLWriter_init_def HazardCurveXMLWriter_serialize_def
        write_document_def hazard_curve_tree_eq)
qed

theorem missing_imls_witness:
  "validate_hazard_metadata md_no_imls = Inr () \<and> md_no_imls ''imls'' = None
   \<and> HazardCurveXMLWriter_init ''out.xml'' md_no_imls
        = Inr \<lparr>HazardCurveXMLWriter.path = ''out.xml'', HazardCurveXMLWriter.metadata = md_no_imls\<rparr>
   \<and> HazardCurveXMLWriter_serialize example_env \<lparr>HazardCurveXMLWriter.path = ''out.xml'', HazardCurveXMLWriter.metadata = md_no_imls\<rparr>
        [] Map.empty
        = (Inl (KeyError ''imls''), [''out.xml'' \<mapsto> Empty])"
proof -
  have v: "validate_hazard_metadata md_no_imls = Inr ()"
    by (simp add: validate_hazard_metadata_def md_no_imls_def md_get_def)
  have k: "md_no_imls ''imls'' = None"
    by (simp add: md_no_imls_def)
  show ?thesis
    using missing_imls [OF v k, of "''out.xml''" example_env "[]" Map.empty] v k
    by simp
qed

section \<open>Scenario A: one hazard curve\<close>

lemma str_int_small:
  "str_int 0 = ''0''" "str_int 1 = ''1''" "str_int 2 = ''2''" "str_int 50 = ''50''"
  by (simp_all add: str_int_def str_nat.simps digit_def)

lemmas str_int_50 = str_int_small(4)

text \<open>
  C3. A hazard-curve writer constructed with \<^verbatim>\<open>imt='PGA'\<close>, \<^verbatim>\<open>smlt_path='b1'\<close>,
  \<^verbatim>\<open>gsimlt_path='g1'\<close>, \<^verbatim>\<open>investigation_time=50\<close>, \<^verbatim>\<open>imls=[0.1,0.2,0.3]\<close>,
  serializing one curve at lon 1.0, lat 2.0 with poes [0.9,0.5,0.1], writes a document
  whose \<^verbatim>\<open>hazardCurves\<close> container carries exactly the four mapped attributes, one
  \<^verbatim>\<open>IMLs\<close> child with text \<^verbatim>\<open>0.1 0.2 0.3\<close> and one \<^verbatim>\<open>hazardCurve\<close> child with
  position text \<^verbatim>\<open>1.0 2.0\<close> and poEs text \<^verbatim>\<open>0.9 0.5 0.1\<close>. The floats are any
  values that the interpreter's \<^verbatim>\<open>str\<close> renders as written in the scenario.
\<close>

theorem scenario_A:
  assumes imls: "float_str B i1 = ''0.1''" "float_str B i2 = ''0.2''" "float_str B i3 = ''0.3''"
    and loc: "float_str B lon = ''1.0''" "float_str B lat = ''2.0''"
    and poes: "float_str B p1 = ''0.9''" "float_str B p2 = ''0.5''" "float_str B p3 = ''0.1''"
  shows "HazardCurveXMLWriter_init p (md_scenario_A i1 i2 i3)
           = Inr \<lparr>HazardCurveXMLWriter.path = p,
                  HazardCurveXMLWriter.metadata = md_scenario_A i1 i2 i3\<rparr>
    \<and> HazardCurveXMLWriter_serialize B
          \<lparr>HazardCurveXMLWriter.path = p,
           HazardCurveXMLWriter.metadata = md_scenario_A i1 i2 i3\<rparr>
          [\<lparr>poes = [PFloat p1, PFloat p2, PFloat p3],
            HazardCurve.location = (PFloat lon, PFloat lat)\<rparr>] files
        = (Inr (),
           files(p \<mapsto> Document
             (Element ''nrml'' [] None
               [Element ''hazardCurves''
                  [(''sourceModelTreePath'', ''b1''), (''gsimTreePath'', ''g1''),
                   (''IMT'', ''PGA''), (''investigationTime'', ''50'')] None
                  [Element ''IMLs'' [] (Some ''0.1 0.2 0.3'') [],
                   Element ''hazardCurve'' [] None
                     [Element (''{'' @ gml_ns B @ ''}Point'') [] None
                        [Element (''{'' @ gml_ns B @ ''}pos'') [] (Some ''1.0 2.0'') []],
                      Element ''poEs'' [] (Some ''0.9 0.5 0.1'') []]]])))"
proof -
  have valid: "validate_hazard_metadata (md_scenario_A i1 i2 i3) = Inr ()"
    by (simp add: validate_hazard_metadata_def md_scenario_A_def md_get_def)
  have attrs: "metadata_attrs (md_scenario_A i1 i2 i3) ATTR_MAP (transform_str B) []
      = Inr [(''sourceModelTreePath'', ''b1''), (''gsimTreePath'', ''g1''),
             (''IMT'', ''PGA''), (''investigationTime'', ''50'')]"
    by (simp add: ATTR_MAP_def md_scenario_A_def md_get_def transform_str_def
        py_str_def str_int_50)
  have imls_key: "md_scenario_A i1 i2 i3 ''imls''
      = Some (PList [PFloat i1, PFloat i2, PFloat i3])"
    by (simp add: md_scenario_A_def)
  show ?thesis
    using assms
    by (simp add: HazardCurveXMLWriter_init_def valid HazardCurveXMLWriter_serialize_def
        write_document_def hazard_curve_tree_eq attrs imls_key py_iter_def py_str_def
        hazard_curve_elem_def)
qed

text \<open>The scenario with floats given by their renderings.\<close>

theorem scenario_A_witness:
  "float_str example_env ''0.1'' = ''0.1'' \<and> float_str example_env ''0.2'' = ''0.2''
   \<and> float_str example_env ''0.3'' = ''0.3'' \<and> float_str example_env ''1.0'' = ''1.0''
   \<and> float_str example_env ''2.0'' = ''2.0'' \<and> float_str example_env ''0.9'' = ''0.9''
   \<and> float_str example_env ''0.5'' = ''0.5''
   \<and> HazardCurveXMLWriter_serialize example_env
          \<lparr>HazardCurveXMLWriter.path = ''out.xml'',
           HazardCurveXMLWriter.metadata = md_scenario_A ''0.1'' ''0.2'' ''0.3''\<rparr>
          [\<lparr>poes = [PFloat ''0.9'', PFloat ''0.5'', PFloat ''0.1''],
            HazardCurve.location = (PFloat ''1.0'', PFloat ''2.0'')\<rparr>] Map.empty
        = (Inr (),
           [''out.xml'' \<mapsto> Document
             (Element ''nrml'' [] None
               [Element ''hazardCurves''
                  [(''sourceModelTreePath'', ''b1''), (''gsimTreePath'', ''g1''),
                   (''IMT'', ''PGA''), (''investigationTime'', ''50'')] None
                  [Element ''IMLs'' [] (Some ''0.1 0.2 0.3'') [],
                   Element ''hazardCurve'' [] None
                     [Element ''{http://www.opengis.net/gml}Point'' [] None
                        [Element ''{http://www.opengis.net/gml}pos'' [] (Some ''1.0 2.0'') []],
                      Element ''poEs'' [] (Some ''0.9 0.5 0.1'') []]]])])"
proof -
  have r: "\<And>s. float_str example_env s = s" by (simp add: example_env_def)
  have g: "gml_ns example_env = ''http://www.opengis.net/gml''" by (simp add: example_env_def)
  show ?thesis
    using scenario_A [of example_env "''0.1''" "''0.2''" "''0.3''" "''1.0''" "''2.0''"
        "''0.9''" "''0.5''" "''0.1''" "''out.xml''" Map.empty, OF r r r r r r r r]
    by (simp add: r g)
qed

section \<open>Collection wrappers\<close>

lemma collect_err_map_Inr: "collect_err (map Inr xs) = Inr xs"
  by (induction xs) simp_all

lemma collect_err_Inr_iff: "collect_err rs = Inr xs \<longleftrightarrow> rs = map Inr xs"
proof (induction rs arbitrary: xs)
  case Nil
  then show ?case by auto
next
  case (Cons r rs)
  show ?case
  proof (cases r)
    case (Inl e)
    then show ?thesis by (cases xs) auto
  next
    case (Inr a)
    show ?thesis
    proof (cases "collect_err rs")
      case (Inl e)
      then have "\<And>ys. rs \<noteq> map Inr ys" using Cons.IH by auto
      then show ?thesis using Inl Inr by (cases xs) auto
    next
      case (Inr as)
      then have "rs = map Inr as" using Cons.IH by simp
      then show ?thesis using Inr \<open>r = Inr a\<close> by (cases xs) (auto simp: collect_err_map_Inr)
    qed
  qed
qed

lemma write_document_Inr:
  "write_document p (Inr root) files = (Inr (), files(p \<mapsto> Document root))"
  by (simp add: write_document_def)

lemma write_document_Inl:
  "write_document p (Inl e) files = (Inl e, files(p \<mapsto> Empty))"
  by (simp add: write_document_def)

lemma event_based_serialize_eq:
  "EventBasedGMFXMLWriter_serialize B w data files =
     (Inr (),
      files(EventBasedGMFXMLWriter.path w \<mapsto> Document
        (wrap_sets ''gmfCollection'' (EventBasedGMFXMLWriter.sm_lt_path w)
           (EventBasedGMFXMLWriter.gsim_lt_path w) (map (gmf_set_elem B) data))))"
  by (simp add: EventBasedGMFXMLWriter_serialize_def write_document_Inr
      event_based_gmf_tree_eq)

lemma ses_serialize_ok:
  "map (ses_elem B) data = map Inr sets \<Longrightarrow>
   SESXMLWriter_serialize B w data files =
     (Inr (),
      files(SESXMLWriter.path w \<mapsto> Document
        (wrap_sets ''stochasticEventSetCollection'' (SESXMLWriter.sm_lt_path w)
           (SESXMLWriter.gsim_lt_path w) sets)))"
  by (simp add: SESXMLWriter_serialize_def write_document_Inr ses_tree_eq
      collect_err_map_Inr)

lemma scenario_serialize_eq:
  "ScenarioGMFXMLWriter_serialize B w data files =
     (Inr (),
      files(ScenarioGMFXMLWriter.path w \<mapsto> Document
        (Element ''nrml'' [] None [Element ''gmfSet'' [] None (map (gmf_elem B) data)])))"
  by (simp add: ScenarioGMFXMLWriter_serialize_def write_document_Inr scenario_gmf_tree_eq)

lemma wrap_sets_both:
  "wrap_sets t (Some sm) (Some gsim) sets =
     Element ''nrml'' [] None
       [Element t [(''sourceModelTreePath'', sm), (''gsimTreePath'', gsim)] None sets]"
  by (simp add: wrap_sets_def SM_TREE_PATH_def GSIM_TREE_PATH_def)

lemma wrap_sets_flat:
  "sm = None \<or> gsim = None \<Longrightarrow> wrap_sets t sm gsim sets = Element ''nrml'' [] None sets"
  by (auto simp add: wrap_sets_def split: option.splits)

lemma ses_elem_tag: "ses_elem B ses = Inr c \<Longrightarrow> tag c = ''stochasticEventSet''"
  by (cases "collect_err (map (rupture_elem B) (ruptures ses))")
     (auto simp add: ses_elem_def)

text \<open>
  C5. \<^verbatim>\<open>EventBasedGMFXMLWriter\<close> and \<^verbatim>\<open>SESXMLWriter\<close> put the set elements under a
  collection element carrying \<^verbatim>\<open>sourceModelTreePath\<close> and \<^verbatim>\<open>gsimTreePath\<close> when both
  logic-tree paths are given, and directly under the root otherwise; every set element
  is tagged \<^verbatim>\<open>gmfSet\<close> (or \<^verbatim>\<open>stochasticEventSet\<close>), so in the second case the root has no
  collection child. \<^verbatim>\<open>ScenarioGMFXMLWriter\<close> always writes one \<^verbatim>\<open>gmfSet\<close> directly
  under the root. For the stochastic event sets, \<open>sets\<close> are the elements of the input
  sets when all of them can be encoded.
\<close>

theorem collection_wrapping:
  "(EventBasedGMFXMLWriter.sm_lt_path wg = Some sm
      \<and> EventBasedGMFXMLWriter.gsim_lt_path wg = Some gsim \<longrightarrow>
    EventBasedGMFXMLWriter_serialize B wg gdata files =
      (Inr (),
       files(EventBasedGMFXMLWriter.path wg \<mapsto> Document
         (Element ''nrml'' [] None
            [Element ''gmfCollection''
               [(''sourceModelTreePath'', sm), (''gsimTreePath'', gsim)] None
               (map (gmf_set_elem B) gdata)]))))
   \<and> (EventBasedGMFXMLWriter.sm_lt_path wg = None
      \<or> EventBasedGMFXMLWriter.gsim_lt_path wg = None \<longrightarrow>
    EventBasedGMFXMLWriter_serialize B wg gdata files =
      (Inr (),
       files(EventBasedGMFXMLWriter.path wg \<mapsto> Document
         (Element ''nrml'' [] None (map (gmf_set_elem B) gdata)))))
   \<and> tag (gmf_set_elem B gmf_set) = ''gmfSet''
   \<and> (SESXMLWriter.sm_lt_path ws = Some sm \<and> SESXMLWriter.gsim_lt_path ws = Some gsim
      \<and> map (ses_elem B) sdata = map Inr sets \<longrightarrow>
    SESXMLWriter_serialize B ws sdata files =
      (Inr (),
       files(SESXMLWriter.path ws \<mapsto> Document
         (Element ''nrml'' [] None
            [Element ''stochasticEventSetCollection''
               [(''sourceModelTreePath'', sm), (''gsimTreePath'', gsim)] None sets]))))
   \<and> ((SESXMLWriter.sm_lt_path ws = None \<or> SESXMLWriter.gsim_lt_path ws = None)
      \<and> map (ses_elem B) sdata = map Inr sets \<longrightarrow>
    SESXMLWriter_serialize B ws sdata files =
      (Inr (),
       files(SESXMLWriter.path ws \<mapsto> Document (Element ''nrml'' [] None sets))))
   \<and> (ses_elem B ses = Inr c \<longrightarrow> tag c = ''stochasticEventSet'')
   \<and> ScenarioGMFXMLWriter_serialize B wc cdata files =
      (Inr (),
       files(ScenarioGMFXMLWriter.path wc \<mapsto> Document
         (Element ''nrml'' [] None
            [Element ''gmfSet'' [] None (map (gmf_elem B) cdata)])))"
  by (simp add: event_based_serialize_eq ses_serialize_ok scenario_serialize_eq
      wrap_sets_both wrap_sets_flat ses_elem_tag gmf_set_elem_def)

text \<open>
  Scenario C (no paths, one GMF set: the set is directly under the root), the wrapped
  case, and both cases for a stochastic event set.
\<close>

theorem collection_wrapping_witness:
  "EventBasedGMFXMLWriter_serialize example_env
      \<lparr>EventBasedGMFXMLWriter.path = ''out.xml'', EventBasedGMFXMLWriter.sm_lt_path = None,
       EventBasedGMFXMLWriter.gsim_lt_path = None\<rparr> [example_gmf_set] Map.empty =
    (Inr (),
     [''out.xml'' \<mapsto> Document
       (Element ''nrml'' [] None
          [Element ''gmfSet'' [(''investigationTime'', ''50.0'')] None
             [Element ''gmf'' [(''IMT'', ''PGA'')] None
                [Element ''node'' [(''iml'', ''0.2''), (''lon'', ''1.0''), (''lat'', ''2.0'')]
                   None []]]])])
   \<and> EventBasedGMFXMLWriter_serialize example_env
      \<lparr>EventBasedGMFXMLWriter.path = ''out.xml'', EventBasedGMFXMLWriter.sm_lt_path = Some ''b1'',
       EventBasedGMFXMLWriter.gsim_lt_path = Some ''g1''\<rparr> [example_gmf_set] Map.empty =
    (Inr (),
     [''out.xml'' \<mapsto> Document
       (Element ''nrml'' [] None
          [Element ''gmfCollection''
             [(''sourceModelTreePath'', ''b1''), (''gsimTreePath'', ''g1'')] None
             [Element ''gmfSet'' [(''investigationTime'', ''50.0'')] None
                [Element ''gmf'' [(''IMT'', ''PGA'')] None
                   [Element ''node'' [(''iml'', ''0.2''), (''lon'', ''1.0''), (''lat'', ''2.0'')]
                      None []]]]])])
   \<and> (\<exists>s. ses_elem example_env example_ses = Inr s
        \<and> SESXMLWriter_serialize example_env
            \<lparr>SESXMLWriter.path = ''out.xml'', SESXMLWriter.sm_lt_path = Some ''b1'',
             SESXMLWriter.gsim_lt_path = None\<rparr> [example_ses] Map.empty =
          (Inr (), [''out.xml'' \<mapsto> Document (Element ''nrml'' [] None [s])])
        \<and> SESXMLWriter_serialize example_env
            \<lparr>SESXMLWriter.path = ''out.xml'', SESXMLWriter.sm_lt_path = Some ''b1'',
             SESXMLWriter.gsim_lt_path = Some ''g1''\<rparr> [example_ses] Map.empty =
          (Inr (), [''out.xml'' \<mapsto> Document (Element ''nrml'' [] None
             [Element ''stochasticEventSetCollection''
                [(''sourceModelTreePath'', ''b1''), (''gsimTreePath'', ''g1'')] None [s]])])
        \<and> tag s = ''stochasticEventSet'')"
proof -
  let ?w0 = "\<lparr>EventBasedGMFXMLWriter.path = ''out.xml'', EventBasedGMFXMLWriter.sm_lt_path = None,
       EventBasedGMFXMLWriter.gsim_lt_path = None\<rparr>"
  let ?w1 = "\<lparr>EventBasedGMFXMLWriter.path = ''out.xml'', EventBasedGMFXMLWriter.sm_lt_path = Some ''b1'',
       EventBasedGMFXMLWriter.gsim_lt_path = Some ''g1''\<rparr>"
  let ?s0 = "\<lparr>SESXMLWriter.path = ''out.xml'', SESXMLWriter.sm_lt_path = Some ''b1'',
             SESXMLWriter.gsim_lt_path = None\<rparr>"
  let ?s1 = "\<lparr>SESXMLWriter.path = ''out.xml'', SESXMLWriter.sm_lt_path = Some ''b1'',
             SESXMLWriter.gsim_lt_path = Some ''g1''\<rparr>"
  have g: "gmf_set_elem example_env example_gmf_set =
      Element ''gmfSet'' [(''investigationTime'', ''50.0'')] None
             [Element ''gmf'' [(''IMT'', ''PGA'')] None
                [Element ''node'' [(''iml'', ''0.2''), (''lon'', ''1.0''), (''lat'', ''2.0'')]
                   None []]]"
    by (simp add: gmf_set_elem_def gmf_elem_def gmf_node_elem_def example_gmf_set_def
        example_env_def py_str_def)
  obtain s where s: "ses_elem example_env example_ses = Inr s"
    by (simp add: ses_elem_def example_ses_def rupture_elem_def example_planar_rupture_def)
  have m: "map (ses_elem example_env) [example_ses] = map Inr [s]"
    using s by simp
  show ?thesis
    using collection_wrapping [of ?w0 _ _ example_env "[example_gmf_set]" Map.empty _ ?s0]
      collection_wrapping [of ?w1 "''b1''" "''g1''" example_env "[example_gmf_set]" Map.empty
        _ ?s1 "[example_ses]" "[s]" example_ses s] s m
      collection_wrapping [of ?w0 "''b1''" _ example_env "[example_gmf_set]" Map.empty
        _ ?s0 "[example_ses]" "[s]" example_ses s]
    by (simp add: g)
qed

section \<open>Order of the emitted elements\<close>

lemma attr_set_fresh: "k \<notin> fst ` set kvs \<Longrightarrow> attr_set k v kvs = kvs @ [(k, v)]"
  by (induction kvs) auto

lemma metadata_attrs_str_eq:
  "distinct (map snd am) \<Longrightarrow> snd ` set am \<inter> fst ` set acc = {} \<Longrightarrow>
   metadata_attrs md am (transform_str B) acc = Inr (acc @ mapped_attrs B md am)"
proof (induction am arbitrary: acc)
  case Nil
  then show ?case by (simp add: mapped_attrs_def)
next
  case (Cons ka am)
  obtain kw attr where ka: "ka = (kw, attr)" by (cases ka)
  have fresh: "attr \<notin> fst ` set acc" using Cons.prems ka by auto
  have d: "distinct (map snd am)" using Cons.prems by simp
  show ?case
  proof (cases "md_get md kw = PNone")
    case True
    have "snd ` set am \<inter> fst ` set acc = {}" using Cons.prems by auto
    from Cons.IH [OF d this] show ?thesis using True ka by (simp add: mapped_attrs_def)
  next
    case False
    have "snd ` set am \<inter> fst ` set (acc @ [(attr, py_str B (md_get md kw))]) = {}"
      using Cons.prems ka by auto
    from Cons.IH [OF d this] show ?thesis
      using False ka fresh
      by (simp add: mapped_attrs_def transform_str_def attr_set_fresh)
  qed
qed

lemma ATTR_MAP_attrs:
  "metadata_attrs md ATTR_MAP (transform_str B) [] = Inr (mapped_attrs B md ATTR_MAP)"
proof -
  have "distinct (map snd ATTR_MAP)" by (simp add: ATTR_MAP_def)
  then show ?thesis using metadata_attrs_str_eq [of ATTR_MAP "[]" md B] by simp
qed

lemma hazard_map_serialize_eq:
  "HazardMapXMLWriter_serialize B w data files =
     (Inr (),
      files(HazardMapXMLWriter.path w \<mapsto> Document
        (Element ''nrml'' [] None
           [Element ''hazardMap'' (mapped_attrs B (HazardMapXMLWriter.metadata w) ATTR_MAP) None
              (map (hazard_map_node B) data)])))"
  by (simp add: HazardMapXMLWriter_serialize_def write_document_Inr hazard_map_tree_eq
      ATTR_MAP_attrs)

lemma hazard_curve_serialize_ok:
  assumes "HazardCurveXMLWriter.metadata w ''imls'' = Some v" and "py_iter v = Inr xs"
  shows "HazardCurveXMLWriter_serialize B w data files =
     (Inr (),
      files(HazardCurveXMLWriter.path w \<mapsto> Document
        (Element ''nrml'' [] None
           [Element ''hazardCurves''
              (mapped_attrs B (HazardCurveXMLWriter.metadata w) ATTR_MAP) None
              (Element ''IMLs'' [] (Some (join '' '' (map (py_str B) xs))) []
                 # map (hazard_curve_elem B) data)])))"
  using assms
  by (simp add: HazardCurveXMLWriter_serialize_def write_document_Inr hazard_curve_tree_eq
      ATTR_MAP_attrs)

lemma ses_elem_children:
  "ses_elem B ses = Inr c \<Longrightarrow> map (rupture_elem B) (ruptures ses) = map Inr (children c)"
  by (cases "collect_err (map (rupture_elem B) (ruptures ses))")
     (auto simp add: ses_elem_def collect_err_Inr_iff)

text \<open>
  C8. The children that each writer emits are the elements of its input items, in the
  order of the input: hazard curves (after the \<^verbatim>\<open>IMLs\<close> child), hazard-map triples, GMF
  sets and within them GMFs and GMF nodes, scenario GMFs, stochastic event sets and
  within them ruptures. Nothing is grouped, sorted or reordered.
\<close>

theorem order_preserved:
  "(HazardCurveXMLWriter.metadata wh ''imls'' = Some v \<and> py_iter v = Inr xs \<longrightarrow>
      HazardCurveXMLWriter_serialize B wh hdata files =
        (Inr (),
         files(HazardCurveXMLWriter.path wh \<mapsto> Document
           (Element ''nrml'' [] None
              [Element ''hazardCurves''
                 (mapped_attrs B (HazardCurveXMLWriter.metadata wh) ATTR_MAP) None
                 (Element ''IMLs'' [] (Some (join '' '' (map (py_str B) xs))) []
                    # map (hazard_curve_elem B) hdata)]))))
   \<and> HazardMapXMLWriter_serialize B wm mdata files =
        (Inr (),
         files(HazardMapXMLWriter.path wm \<mapsto> Document
           (Element ''nrml'' [] None
              [Element ''hazardMap''
                 (mapped_attrs B (HazardMapXMLWriter.metadata wm) ATTR_MAP) None
                 (map (hazard_map_node B) mdata)])))
   \<and> EventBasedGMFXMLWriter_serialize B wg gdata files =
        (Inr (),
         files(EventBasedGMFXMLWriter.path wg \<mapsto> Document
           (wrap_sets ''gmfCollection'' (EventBasedGMFXMLWriter.sm_lt_path wg)
              (EventBasedGMFXMLWriter.gsim_lt_path wg) (map (gmf_set_elem B) gdata))))
   \<and> children (gmf_set_elem B gmf_set) = map (gmf_elem B) (gmfs gmf_set)
   \<and> children (gmf_elem B gmf) = map (gmf_node_elem B) (nodes gmf)
   \<and> ScenarioGMFXMLWriter_serialize B wc cdata files =
        (Inr (),
         files(ScenarioGMFXMLWriter.path wc \<mapsto> Document
           (Element ''nrml'' [] None
              [Element ''gmfSet'' [] None (map (gmf_elem B) cdata)])))
   \<and> (fst (SESXMLWriter_serialize B ws sdata files) = Inr () \<longrightarrow>
        (\<exists>sets. map (ses_elem B) sdata = map Inr sets
           \<and> SESXMLWriter_serialize B ws sdata files =
               (Inr (),
                files(SESXMLWriter.path ws \<mapsto> Document
                  (wrap_sets ''stochasticEventSetCollection'' (SESXMLWriter.sm_lt_path ws)
                     (SESXMLWriter.gsim_lt_path ws) sets)))))
   \<and> (ses_elem B ses = Inr c \<longrightarrow>
        map (rupture_elem B) (ruptures ses) = map Inr (children c))"
proof -
  have ses: "fst (SESXMLWriter_serialize B ws sdata files) = Inr () \<Longrightarrow>
        (\<exists>sets. map (ses_elem B) sdata = map Inr sets
           \<and> SESXMLWriter_serialize B ws sdata files =
               (Inr (),
                files(SESXMLWriter.path ws \<mapsto> Document
                  (wrap_sets ''stochasticEventSetCollection'' (SESXMLWriter.sm_lt_path ws)
                     (SESXMLWriter.gsim_lt_path ws) sets))))"
  proof (cases "collect_err (map (ses_elem B) sdata)")
    case (Inl e)
    assume "fst (SESXMLWriter_serialize B ws sdata files) = Inr ()"
    then show ?thesis
      using Inl by (simp add: SESXMLWriter_serialize_def write_document_Inl ses_tree_eq)
  next
    case (Inr sets)
    then have "map (ses_elem B) sdata = map Inr sets" by (simp add: collect_err_Inr_iff)
    then show ?thesis using ses_serialize_ok by blast
  qed
  show ?thesis
    using ses
    by (simp add: hazard_curve_serialize_ok hazard_map_serialize_eq event_based_serialize_eq
        scenario_serialize_eq ses_elem_children gmf_set_elem_def gmf_elem_def)
qed

text \<open>
  Three map points out of order, two curves out of order, and two stochastic event
  sets: each document lists them as given.
\<close>

theorem order_preserved_witness:
  "HazardMapXMLWriter_serialize example_env
      \<lparr>HazardMapXMLWriter.path = ''out.xml'', HazardMapXMLWriter.metadata = md_no_imls\<rparr>
      [(PFloat ''3.0'', PFloat ''1.0'', PFloat ''0.3''),
       (PFloat ''1.0'', PFloat ''2.0'', PFloat ''0.1''),
       (PFloat ''2.0'', PFloat ''0.0'', PFloat ''0.2'')] Map.empty
    = (Inr (),
       [''out.xml'' \<mapsto> Document
         (Element ''nrml'' [] None
            [Element ''hazardMap''
               [(''sourceModelTreePath'', ''b1''), (''gsimTreePath'', ''g1''),
                (''IMT'', ''PGA''), (''investigationTime'', ''50'')] None
               [Element ''node'' [(''lon'', ''3.0''), (''lat'', ''1.0''), (''iml'', ''0.3'')]
                  None [],
                Element ''node'' [(''lon'', ''1.0''), (''lat'', ''2.0''), (''iml'', ''0.1'')]
                  None [],
                Element ''node'' [(''lon'', ''2.0''), (''lat'', ''0.0''), (''iml'', ''0.2'')]
                  None []]])])
   \<and> (\<exists>attrs. HazardCurveXMLWriter_serialize example_env
      \<lparr>HazardCurveXMLWriter.path = ''out.xml'',
       HazardCurveXMLWriter.metadata = md_scenario_A ''0.1'' ''0.2'' ''0.3''\<rparr>
      [\<lparr>poes = [PFloat ''0.9''], HazardCurve.location = (PFloat ''2.0'', PFloat ''0.0'')\<rparr>,
       \<lparr>poes = [PFloat ''0.5''], HazardCurve.location = (PFloat ''1.0'', PFloat ''0.0'')\<rparr>]
      Map.empty
    = (Inr (),
       [''out.xml'' \<mapsto> Document
         (Element ''nrml'' [] None
            [Element ''hazardCurves'' attrs None
               [Element ''IMLs'' [] (Some ''0.1 0.2 0.3'') [],
                Element ''hazardCurve'' [] None
                  [Element ''{http://www.opengis.net/gml}Point'' [] None
                     [Element ''{http://www.opengis.net/gml}pos'' [] (Some ''2.0 0.0'') []],
                   Element ''poEs'' [] (Some ''0.9'') []],
                Element ''hazardCurve'' [] None
                  [Element ''{http://www.opengis.net/gml}Point'' [] None
                     [Element ''{http://www.opengis.net/gml}pos'' [] (Some ''1.0 0.0'') []],
                   Element ''poEs'' [] (Some ''0.5'') []]]])]))
   \<and> (\<exists>s. ses_elem example_env example_ses = Inr s
        \<and> map (rupture_elem example_env) (ruptures example_ses) = map Inr (children s)
        \<and> SESXMLWriter_serialize example_env
            \<lparr>SESXMLWriter.path = ''out.xml'', SESXMLWriter.sm_lt_path = None,
             SESXMLWriter.gsim_lt_path = None\<rparr> [example_ses, example_ses] Map.empty
          = (Inr (), [''out.xml'' \<mapsto> Document (Element ''nrml'' [] None [s, s])]))"
proof -
  let ?wm = "\<lparr>HazardMapXMLWriter.path = ''out.xml'', HazardMapXMLWriter.metadata = md_no_imls\<rparr>"
  let ?wh = "\<lparr>HazardCurveXMLWriter.path = ''out.xml'',
       HazardCurveXMLWriter.metadata = md_scenario_A ''0.1'' ''0.2'' ''0.3''\<rparr>"
  let ?ws = "\<lparr>SESXMLWriter.path = ''out.xml'', SESXMLWriter.sm_lt_path = None,
             SESXMLWriter.gsim_lt_path = None\<rparr>"
  let ?hdata = "[\<lparr>poes = [PFloat ''0.9''], HazardCurve.location = (PFloat ''2.0'', PFloat ''0.0'')\<rparr>,
       \<lparr>poes = [PFloat ''0.5''], HazardCurve.location = (PFloat ''1.0'', PFloat ''0.0'')\<rparr>]"
  let ?mdata = "[(PFloat ''3.0'', PFloat ''1.0'', PFloat ''0.3''),
       (PFloat ''1.0'', PFloat ''2.0'', PFloat ''0.1''),
       (PFloat ''2.0'', PFloat ''0.0'', PFloat ''0.2'')]"
  have r: "\<And>x. float_str example_env x = x" by (simp add: example_env_def)
  have g: "gml_ns example_env = ''http://www.opengis.net/gml''" by (simp add: example_env_def)
  have attrs: "mapped_attrs example_env md_no_imls ATTR_MAP =
      [(''sourceModelTreePath'', ''b1''), (''gsimTreePath'', ''g1''),
       (''IMT'', ''PGA''), (''investigationTime'', ''50'')]"
    by (simp add: mapped_attrs_def ATTR_MAP_def md_no_imls_def md_get_def py_str_def
        str_int_50)
  have imls: "HazardCurveXMLWriter.metadata ?wh ''imls''
      = Some (PList [PFloat ''0.1'', PFloat ''0.2'', PFloat ''0.3''])"
    by (simp add: md_scenario_A_def)
  have it: "py_iter (PList [PFloat ''0.1'', PFloat ''0.2'', PFloat ''0.3''])
      = Inr [PFloat ''0.1'', PFloat ''0.2'', PFloat ''0.3'']"
    by (simp add: py_iter_def)
  obtain s where s: "ses_elem example_env example_ses = Inr s"
    by (simp add: ses_elem_def example_ses_def rupture_elem_def example_planar_rupture_def)
  have ok: "fst (SESXMLWriter_serialize example_env ?ws [example_ses, example_ses] Map.empty)
      = Inr ()"
    using s by (simp add: SESXMLWriter_serialize_def write_document_def ses_tree_eq)
  note inst = order_preserved [where B = example_env and wm = ?wm and mdata = ?mdata
      and wh = ?wh and hdata = ?hdata and files = Map.empty and ws = ?ws
      and sdata = "[example_ses, example_ses]" and ses = example_ses and c = s
      and v = "PList [PFloat ''0.1'', PFloat ''0.2'', PFloat ''0.3'']"
      and xs = "[PFloat ''0.1'', PFloat ''0.2'', PFloat ''0.3'']"
      and wg = "\<lparr>EventBasedGMFXMLWriter.path = ''out.xml'',
                 EventBasedGMFXMLWriter.sm_lt_path = None,
                 EventBasedGMFXMLWriter.gsim_lt_path = None\<rparr>"
      and gdata = "[]" and gmf_set = example_gmf_set and gmf = "hd (gmfs example_gmf_set)"
      and wc = "\<lparr>ScenarioGMFXMLWriter.path = ''out.xml''\<rparr>" and cdata = "[]"]
  have map_part: "HazardMapXMLWriter_serialize example_env ?wm ?mdata Map.empty
    = (Inr (),
       [''out.xml'' \<mapsto> Document
         (Element ''nrml'' [] None
            [Element ''hazardMap''
               [(''sourceModelTreePath'', ''b1''), (''gsimTreePath'', ''g1''),
                (''IMT'', ''PGA''), (''investigationTime'', ''50'')] None
               [Element ''node'' [(''lon'', ''3.0''), (''lat'', ''1.0''), (''iml'', ''0.3'')]
                  None [],
                Element ''node'' [(''lon'', ''1.0''), (''lat'', ''2.0''), (''iml'', ''0.1'')]
                  None [],
                Element ''node'' [(''lon'', ''2.0''), (''lat'', ''0.0''), (''iml'', ''0.2'')]
                  None []]])])"
    using inst by (simp add: attrs hazard_map_node_def py_str_def r)
  have curve_part: "HazardCurveXMLWriter_serialize example_env ?wh ?hdata Map.empty
    = (Inr (),
       [''out.xml'' \<mapsto> Document
         (Element ''nrml'' [] None
            [Element ''hazardCurves''
               (mapped_attrs example_env (md_scenario_A ''0.1'' ''0.2'' ''0.3'') ATTR_MAP)
               None
               [Element ''IMLs'' [] (Some ''0.1 0.2 0.3'') [],
                Element ''hazardCurve'' [] None
                  [Element ''{http://www.opengis.net/gml}Point'' [] None
                     [Element ''{http://www.opengis.net/gml}pos'' [] (Some ''2.0 0.0'') []],
                   Element ''poEs'' [] (Some ''0.9'') []],
                Element ''hazardCurve'' [] None
                  [Element ''{http://www.opengis.net/gml}Point'' [] None
                     [Element ''{http://www.opengis.net/gml}pos'' [] (Some ''1.0 0.0'') []],
                   Element ''poEs'' [] (Some ''0.5'') []]]])])"
    using inst imls it by (simp add: hazard_curve_elem_def py_str_def r g)
  have ses_part: "map (rupture_elem example_env) (ruptures example_ses) = map Inr (children s)
        \<and> SESXMLWriter_serialize example_env ?ws [example_ses, example_ses] Map.empty
          = (Inr (), [''out.xml'' \<mapsto> Document (Element ''nrml'' [] None [s, s])])"
    using inst ok s by (auto simp add: wrap_sets_def)
  show ?thesis
    using map_part curve_part ses_part s by (intro conjI exI) (assumption | simp)+
qed

section \<open>The rupture mesh\<close>

lemma grid_get_in_shape:
  "has_shape g n m \<Longrightarrow> i < n \<Longrightarrow> j < m \<Longrightarrow> grid_get g i j = Inr (g ! i ! j)"
  by (simp add: has_shape_def grid_get_def)

lemma mesh_node_elem_in_shape:
  assumes "has_shape (lons r) n m" "has_shape (lats r) n m" "has_shape (depths r) n m"
    and "i < n" "j < m"
  shows "mesh_node_elem B r i j = Inr (mesh_node B r i j)"
  using assms by (simp add: mesh_node_elem_def mesh_node_def grid_get_in_shape)

lemma mesh_row_elems_in_shape:
  assumes "has_shape (lons r) n m" "has_shape (lats r) n m" "has_shape (depths r) n m"
    and "i < n" "length row = m"
  shows "mesh_row_elems B r (i, row) = Inr (map (mesh_node B r i) [0..<m])"
proof -
  have "map (\<lambda>jcol. mesh_node_elem B r i (fst jcol)) (enumerate 0 row)
      = map (mesh_node_elem B r i) (map fst (enumerate 0 row))"
    by (simp only: map_map o_def)
  also have "\<dots> = map (mesh_node_elem B r i) [0..<m]"
    using assms(5) by simp
  also have "\<dots> = map Inr (map (mesh_node B r i) [0..<m])"
    using assms by (simp add: mesh_node_elem_in_shape)
  finally show ?thesis
    by (simp only: mesh_row_elems_def prod.case collect_err_map_Inr)
qed

lemma mesh_rows_in_shape:
  assumes "has_shape (lons r) n m" "has_shape (lats r) n m" "has_shape (depths r) n m"
  shows "map (mesh_row_elems B r) (enumerate 0 (lons r))
       = map Inr (map (\<lambda>i. map (mesh_node B r i) [0..<m]) [0..<n])"
proof (rule nth_equalityI)
  show "length (map (mesh_row_elems B r) (enumerate 0 (lons r)))
      = length (map Inr (map (\<lambda>i. map (mesh_node B r i) [0..<m]) [0..<n]))"
    using assms(1) by (simp add: has_shape_def)
next
  fix i assume "i < length (map (mesh_row_elems B r) (enumerate 0 (lons r)))"
  then have i: "i < n" using assms(1) by (simp add: has_shape_def)
  then have len: "length (lons r ! i) = m" and il: "i < length (lons r)"
    using assms(1) by (simp_all add: has_shape_def)
  show "map (mesh_row_elems B r) (enumerate 0 (lons r)) ! i
      = map Inr (map (\<lambda>i. map (mesh_node B r i) [0..<m]) [0..<n]) ! i"
    using i il mesh_row_elems_in_shape [OF assms i len]
    by (simp add: nth_enumerate_eq)
qed

lemma mesh_rows_collect:
  assumes "has_shape (lons r) n m" "has_shape (lats r) n m" "has_shape (depths r) n m"
  shows "collect_err (map (mesh_row_elems B r) (enumerate 0 (lons r)))
       = Inr (map (\<lambda>i. map (mesh_node B r i) [0..<m]) [0..<n])"
  by (simp only: mesh_rows_in_shape [OF assms] collect_err_map_Inr)

lemma last_col_in_shape:
  "g \<noteq> [] \<Longrightarrow> \<forall>row \<in> set g. length row = m \<Longrightarrow> 0 < m \<Longrightarrow> last_col g jv = Some (m - 1)"
proof (induction g arbitrary: jv)
  case Nil
  then show ?case by simp
next
  case (Cons row g)
  then show ?case by (cases g) auto
qed

lemma last_col_empty_rows:
  "\<forall>row \<in> set g. row = [] \<Longrightarrow> last_col g jv = jv"
  by (induction g arbitrary: jv) auto

lemma mesh_rows_empty:
  "\<forall>row \<in> set g. row = [] \<Longrightarrow>
   collect_err (map (mesh_row_elems B r) (enumerate k g)) = Inr (map (\<lambda>_. []) g)"
  by (induction g arbitrary: k) (auto simp add: mesh_row_elems_def)

lemma mesh_elem_in_shape:
  assumes "has_shape (lons r) n m" "has_shape (lats r) n m" "has_shape (depths r) n m"
    and "0 < n" "0 < m"
  shows "mesh_elem B r =
     Inr (Element ''mesh'' [(''rows'', str_int (int n)), (''cols'', str_int (int m))] None
            (concat (map (\<lambda>i. map (mesh_node B r i) [0..<m]) [0..<n])))"
proof -
  have ne: "lons r \<noteq> []" and len: "length (lons r) = n"
    and rows: "\<forall>row \<in> set (lons r). length row = m"
    using assms(1,4) by (auto simp add: has_shape_def)
  have j: "last_col (lons r) None = Some (m - 1)"
    using ne rows assms(5) by (rule last_col_in_shape)
  have m: "int (m - 1) + 1 = int m" using assms(5) by simp
  show ?thesis
    using ne len j m
    by (simp add: mesh_elem_def mesh_rows_collect [OF assms(1-3)])
qed

lemma mesh_elem_empty:
  assumes "has_shape (lons r) n m" and "n = 0 \<or> m = 0"
  shows "mesh_elem B r = Inl (ValueError ''Invalid rupture mesh'')"
proof (cases "lons r = []")
  case True
  then show ?thesis by (simp add: mesh_elem_def)
next
  case False
  then have "n \<noteq> 0" using assms(1) by (auto simp add: has_shape_def)
  then have "m = 0" using assms(2) by simp
  then have empty: "\<forall>row \<in> set (lons r). row = []"
    using assms(1) by (simp add: has_shape_def)
  show ?thesis
    using False
    by (simp add: mesh_elem_def mesh_rows_empty [OF empty] last_col_empty_rows [OF empty])
qed

lemma collect_err_member_Inl:
  "x \<in> set xs \<Longrightarrow> T x = Inl e \<Longrightarrow> \<exists>e'. collect_err (map T xs) = Inl e'"
proof (induction xs)
  case Nil
  then show ?case by simp
next
  case (Cons y ys)
  show ?case
  proof (cases "T y")
    case (Inl e0)
    then show ?thesis by simp
  next
    case (Inr c)
    then have "x \<in> set ys" using Cons.prems by auto
    then obtain e' where "collect_err (map T ys) = Inl e'"
      using Cons.IH Cons.prems(2) by blast
    then show ?thesis using Inr by simp
  qed
qed

lemma ses_serialize_fails:
  assumes "rupture_elem B r = Inl e" and "r \<in> set (ruptures ses)" and "ses \<in> set data"
  shows "\<exists>err. SESXMLWriter_serialize B w data files
            = (Inl err, files(SESXMLWriter.path w \<mapsto> Empty))"
proof -
  obtain e1 where "collect_err (map (rupture_elem B) (ruptures ses)) = Inl e1"
    using collect_err_member_Inl [where T = "rupture_elem B", OF assms(2,1)] by blast
  then have "ses_elem B ses = Inl e1" by (simp add: ses_elem_def)
  then obtain e2 where "collect_err (map (ses_elem B) data) = Inl e2"
    using collect_err_member_Inl [where T = "ses_elem B", OF assms(3)] by blast
  then show ?thesis
    by (simp add: SESXMLWriter_serialize_def write_document_Inl ses_tree_eq)
qed

lemma ses_serialize_fails_first:
  assumes "rupture_elem B r = Inl e" and "ruptures ses = r # rs"
  shows "SESXMLWriter_serialize B w (ses # rest) files
            = (Inl e, files(SESXMLWriter.path w \<mapsto> Empty))"
  using assms
  by (simp add: SESXMLWriter_serialize_def write_document_Inl ses_tree_eq ses_elem_def)

text \<open>
  C4. For a fault-source rupture whose \<^verbatim>\<open>lons\<close> is a 2D array of \<open>n\<close> rows and \<open>m\<close>
  columns: when \<open>n\<close> and \<open>m\<close> are positive (and \<^verbatim>\<open>lats\<close> and \<^verbatim>\<open>depths\<close> have the same
  shape) the mesh encoder appends to the rupture element one \<^verbatim>\<open>mesh\<close> element with
  \<^verbatim>\<open>rows\<close> = \<open>n\<close>, \<^verbatim>\<open>cols\<close> = \<open>m\<close> (the highest index plus one) and one node per cell in
  row-major order, each with its row, col, lon, lat and depth; when \<open>n = 0\<close> or
  \<open>m = 0\<close> it raises \<^verbatim>\<open>ValueError('Invalid rupture mesh')\<close>, and
  \<^verbatim>\<open>SESXMLWriter.serialize\<close> fails on any input that holds such a rupture (with exactly
  this error when the rupture is the first of the first set).
\<close>

theorem rupture_mesh:
  assumes "has_shape (lons r) n m" and "elem_at root p = Some e"
  shows "(0 < n \<and> 0 < m \<and> has_shape (lats r) n m \<and> has_shape (depths r) n m \<longrightarrow>
            create_rupture_mesh B r p root =
              Inr (modify_at
                     (append_child
                        (Element ''mesh''
                           [(''rows'', str_int (int n)), (''cols'', str_int (int m))] None
                           (concat (map (\<lambda>i. map (mesh_node B r i) [0..<m]) [0..<n]))))
                     p root))
       \<and> (n = 0 \<or> m = 0 \<longrightarrow>
            create_rupture_mesh B r p root = Inl (ValueError ''Invalid rupture mesh''))
       \<and> ((n = 0 \<or> m = 0) \<and> is_from_fault_source r \<and> r \<in> set (ruptures ses)
              \<and> ses \<in> set data \<longrightarrow>
            (\<exists>err. SESXMLWriter_serialize B w data files
                     = (Inl err, files(SESXMLWriter.path w \<mapsto> Empty))))
       \<and> ((n = 0 \<or> m = 0) \<and> is_from_fault_source r \<and> ruptures ses = r # rs \<longrightarrow>
            SESXMLWriter_serialize B w (ses # rest) files
              = (Inl (ValueError ''Invalid rupture mesh''),
                 files(SESXMLWriter.path w \<mapsto> Empty)))"
proof (intro conjI impI)
  assume "0 < n \<and> 0 < m \<and> has_shape (lats r) n m \<and> has_shape (depths r) n m"
  then show "create_rupture_mesh B r p root =
              Inr (modify_at
                     (append_child
                        (Element ''mesh''
                           [(''rows'', str_int (int n)), (''cols'', str_int (int m))] None
                           (concat (map (\<lambda>i. map (mesh_node B r i) [0..<m]) [0..<n]))))
                     p root)"
    using assms by (simp add: create_rupture_mesh_eq mesh_elem_in_shape)
next
  assume "n = 0 \<or> m = 0"
  then show "create_rupture_mesh B r p root = Inl (ValueError ''Invalid rupture mesh'')"
    using assms by (simp add: create_rupture_mesh_eq mesh_elem_empty)
next
  assume a: "(n = 0 \<or> m = 0) \<and> is_from_fault_source r \<and> r \<in> set (ruptures ses)
              \<and> ses \<in> set data"
  then have "rupture_elem B r = Inl (ValueError ''Invalid rupture mesh'')"
    using assms(1) by (simp add: rupture_elem_def mesh_elem_empty)
  then show "\<exists>err. SESXMLWriter_serialize B w data files
                     = (Inl err, files(SESXMLWriter.path w \<mapsto> Empty))"
    using a ses_serialize_fails by blast
next
  assume a: "(n = 0 \<or> m = 0) \<and> is_from_fault_source r \<and> ruptures ses = r # rs"
  then have "rupture_elem B r = Inl (ValueError ''Invalid rupture mesh'')"
    using assms(1) by (simp add: rupture_elem_def mesh_elem_empty)
  then show "SESXMLWriter_serialize B w (ses # rest) files
              = (Inl (ValueError ''Invalid rupture mesh''),
                 files(SESXMLWriter.path w \<mapsto> Empty))"
    using a ses_serialize_fails_first by blast
qed

text \<open>A 2 by 2 mesh, and scenario E: a fault-source rupture whose grid has no rows.\<close>

theorem rupture_mesh_witness:
  "create_rupture_mesh example_env example_mesh_rupture [] (Element ''rupture'' [] None []) =
     Inr (Element ''rupture'' [] None
       [Element ''mesh'' [(''rows'', ''2''), (''cols'', ''2'')] None
          [Element ''node'' [(''row'', ''0''), (''col'', ''0''), (''lon'', ''1.0''),
                            (''lat'', ''2.0''), (''depth'', ''5.0'')] None [],
           Element ''node'' [(''row'', ''0''), (''col'', ''1''), (''lon'', ''1.1''),
                            (''lat'', ''2.0''), (''depth'', ''5.0'')] None [],
           Element ''node'' [(''row'', ''1''), (''col'', ''0''), (''lon'', ''1.0''),
                            (''lat'', ''2.1''), (''depth'', ''9.0'')] None [],
           Element ''node'' [(''row'', ''1''), (''col'', ''1''), (''lon'', ''1.1''),
                            (''lat'', ''2.1''), (''depth'', ''9.0'')] None []]])
   \<and> create_rupture_mesh example_env example_empty_mesh_rupture []
        (Element ''rupture'' [] None [])
       = Inl (ValueError ''Invalid rupture mesh'')
   \<and> SESXMLWriter_serialize example_env
        \<lparr>SESXMLWriter.path = ''out.xml'', SESXMLWriter.sm_lt_path = None,
         SESXMLWriter.gsim_lt_path = None\<rparr>
        [\<lparr>SES.investigation_time = PFloat ''50.0'',
          ruptures = [example_empty_mesh_rupture]\<rparr>] Map.empty
       = (Inl (ValueError ''Invalid rupture mesh''), [''out.xml'' \<mapsto> Empty])"
proof -
  let ?root = "Element ''rupture'' [] None []"
  let ?w = "\<lparr>SESXMLWriter.path = ''out.xml'', SESXMLWriter.sm_lt_path = None,
         SESXMLWriter.gsim_lt_path = None\<rparr>"
  let ?ses = "\<lparr>SES.investigation_time = PFloat ''50.0'',
          ruptures = [example_empty_mesh_rupture]\<rparr>"
  have s: "has_shape (lons example_mesh_rupture) (Suc (Suc 0)) (Suc (Suc 0))"
      "has_shape (lats example_mesh_rupture) (Suc (Suc 0)) (Suc (Suc 0))"
      "has_shape (depths example_mesh_rupture) (Suc (Suc 0)) (Suc (Suc 0))"
    by (simp_all add: has_shape_def example_mesh_rupture_def)
  have z: "has_shape (lons example_empty_mesh_rupture) 0 0"
    by (simp add: has_shape_def example_empty_mesh_rupture_def)
  have at: "elem_at ?root [] = Some ?root" by simp
  have f: "is_from_fault_source example_empty_mesh_rupture"
    by (simp add: example_empty_mesh_rupture_def)
  have r: "\<And>x. float_str example_env x = x" by (simp add: example_env_def)
  show ?thesis
    using rupture_mesh [OF s(1) at, of example_env] s(2,3)
      rupture_mesh [OF z at, of example_env ?ses "[]" ?w Map.empty "[]" "[]"] f
    by (simp add: mesh_node_def append_child_def example_mesh_rupture_def py_str_def r
        str_int_small)
qed

section \<open>Bin edges of a disaggregation result\<close>

lemma py_iter_cases: "py_iter v \<noteq> Inl TypeError \<Longrightarrow> \<exists>xs. py_iter v = Inr xs"
  by (cases v) (simp_all add: py_iter_def)

lemma metadata_attrs_join_ok:
  "\<forall>kw \<in> fst ` set am. md_get md kw \<noteq> PNone \<longrightarrow> py_iter (md_get md kw) \<noteq> Inl TypeError \<Longrightarrow>
   \<exists>a'. metadata_attrs md am (transform_join B) a = Inr a'"
proof (induction am arbitrary: a)
  case Nil
  then show ?case by simp
next
  case (Cons ka am)
  obtain kw attr where ka: "ka = (kw, attr)" by (cases ka)
  have rest: "\<forall>kw \<in> fst ` set am. md_get md kw \<noteq> PNone \<longrightarrow> py_iter (md_get md kw) \<noteq> Inl TypeError"
    using Cons.prems by simp
  show ?case
  proof (cases "md_get md kw = PNone")
    case True
    then show ?thesis using Cons.IH [OF rest] ka by simp
  next
    case False
    then have "py_iter (md_get md kw) \<noteq> Inl TypeError" using Cons.prems ka by simp
    then obtain xs where "py_iter (md_get md kw) = Inr xs" using py_iter_cases by blast
    then show ?thesis using Cons.IH [OF rest] ka False by (simp add: transform_join_def)
  qed
qed

lemma check_bin_edges_ok_iff:
  "check_bin_edges md labels = Inr () \<longleftrightarrow> labels_have_bin_edges md labels"
  by (induction labels) (auto simp add: labels_have_bin_edges_def Let_def)

lemma check_bin_edges_first_missing:
  "labels_have_bin_edges md pre \<Longrightarrow> md_get_opt md (DIM_LABEL_TO_BIN_EDGE_MAP l) = PNone \<Longrightarrow>
   check_bin_edges md (pre @ l # post)
     = Inl (AssertionError (missing_message (DIM_LABEL_TO_BIN_EDGE_MAP l)))"
  by (induction pre) (auto simp add: labels_have_bin_edges_def Let_def)

lemma check_bin_edges_some_missing:
  "\<not> labels_have_bin_edges md labels \<Longrightarrow>
   \<exists>l \<in> set labels. md_get_opt md (DIM_LABEL_TO_BIN_EDGE_MAP l) = PNone
      \<and> check_bin_edges md labels
          = Inl (AssertionError (missing_message (DIM_LABEL_TO_BIN_EDGE_MAP l)))"
  by (induction labels) (auto simp add: labels_have_bin_edges_def Let_def)

lemma collect_err_first_Inl:
  "\<forall>y \<in> set pre. \<exists>c. T y = Inr c \<Longrightarrow> T x = Inl e \<Longrightarrow>
   collect_err (map T (pre @ x # post)) = Inl e"
  by (induction pre) (auto split: sum.splits)

lemma disagg_serialize_fails:
  assumes "bin_edges_iterable (DisaggXMLWriter.metadata w)"
    and "\<forall>r' \<in> set rs. labels_have_bin_edges (DisaggXMLWriter.metadata w) (dim_labels r')"
    and "check_bin_edges (DisaggXMLWriter.metadata w) (dim_labels r) = Inl e"
  shows "DisaggXMLWriter_serialize B w (rs @ r # rest) files
       = (Inl e, files(DisaggXMLWriter.path w \<mapsto> Empty))"
proof -
  let ?md = "DisaggXMLWriter.metadata w"
  obtain a' where a': "metadata_attrs ?md BIN_EDGE_ATTR_MAP (transform_join B)
      (mapped_attrs B ?md ATTR_MAP) = Inr a'"
    using assms(1) metadata_attrs_join_ok [of BIN_EDGE_ATTR_MAP ?md B]
    unfolding bin_edges_iterable_def by blast
  have ok: "\<forall>r' \<in> set rs. \<exists>c. disagg_matrix_elem B ?md r' = Inr c"
  proof
    fix r' assume "r' \<in> set rs"
    then have "check_bin_edges ?md (dim_labels r') = Inr ()"
      using assms(2) by (simp add: check_bin_edges_ok_iff)
    then show "\<exists>c. disagg_matrix_elem B ?md r' = Inr c"
      by (simp add: disagg_matrix_elem_def)
  qed
  have bad: "disagg_matrix_elem B ?md r = Inl e"
    using assms(3) by (simp add: disagg_matrix_elem_def)
  have "collect_err (map (disagg_matrix_elem B ?md) (rs @ r # rest)) = Inl e"
    using ok bad by (rule collect_err_first_Inl)
  then show ?thesis
    by (simp add: DisaggXMLWriter_serialize_def write_document_Inl disagg_tree_eq
        ATTR_MAP_attrs a')
qed

lemma known_labels:
  "DIM_LABEL_TO_BIN_EDGE_MAP l = None
     \<longleftrightarrow> l \<notin> {''Mag'', ''Dist'', ''Lon'', ''Lat'', ''Eps'', ''TRT''}"
  by (simp add: DIM_LABEL_TO_BIN_EDGE_MAP_def)

lemma md_mag_only_iterable: "bin_edges_iterable md_mag_only"
  by (simp add: bin_edges_iterable_def BIN_EDGE_ATTR_MAP_def md_mag_only_def md_get_def
      py_iter_def)

text \<open>
  C6. The bin-edge check is made by \<^verbatim>\<open>serialize\<close>, result by result, not by the
  constructor: metadata that passes the validator constructs a writer whatever bin
  edges it has. When a result's label \<open>l\<close> maps to a bin-edge field that the metadata
  does not supply (and the labels before it and the results before it are complete),
  \<^verbatim>\<open>serialize\<close> raises \<^verbatim>\<open>AssertionError\<close> with a message naming that field, and no
  document is written: the output file is left empty.
\<close>

theorem missing_bin_edges:
  assumes "bin_edges_iterable md"
    and "\<forall>r' \<in> set rs. labels_have_bin_edges md (dim_labels r')"
    and "dim_labels r = pre @ l # post"
    and "labels_have_bin_edges md pre"
    and "DIM_LABEL_TO_BIN_EDGE_MAP l = Some field"
    and "md_get md field = PNone"
  shows "(validate_hazard_metadata md = Inr () \<longrightarrow>
            DisaggXMLWriter_init p md
              = Inr \<lparr>DisaggXMLWriter.path = p, DisaggXMLWriter.metadata = md\<rparr>)
     \<and> DisaggXMLWriter_serialize B
            \<lparr>DisaggXMLWriter.path = p, DisaggXMLWriter.metadata = md\<rparr> (rs @ r # rest) files
        = (Inl (AssertionError
                  (''Writer is missing '' @ [CHR 0x27] @ field @ [CHR 0x27] @ '' metadata'')),
           files(p \<mapsto> Empty))"
proof -
  let ?w = "\<lparr>DisaggXMLWriter.path = p, DisaggXMLWriter.metadata = md\<rparr>"
  have "md_get_opt md (DIM_LABEL_TO_BIN_EDGE_MAP l) = PNone"
    using assms(5,6) by (simp add: md_get_opt_def)
  then have "check_bin_edges md (dim_labels r)
      = Inl (AssertionError (missing_message (DIM_LABEL_TO_BIN_EDGE_MAP l)))"
    using assms(3,4) by (simp add: check_bin_edges_first_missing)
  then have "DisaggXMLWriter_serialize B ?w (rs @ r # rest) files
       = (Inl (AssertionError (missing_message (DIM_LABEL_TO_BIN_EDGE_MAP l))),
          files(DisaggXMLWriter.path ?w \<mapsto> Empty))"
    using assms(1,2) by (intro disagg_serialize_fails) simp_all
  then show ?thesis
    using assms(5) by (simp add: missing_message_def DisaggXMLWriter_init_def)
qed

text \<open>Scenario D: labels Mag and Dist, and no \<^verbatim>\<open>dist_bin_edges\<close> in the metadata.\<close>

theorem missing_bin_edges_witness:
  "DisaggXMLWriter_init ''out.xml'' md_mag_only
     = Inr \<lparr>DisaggXMLWriter.path = ''out.xml'', DisaggXMLWriter.metadata = md_mag_only\<rparr>
   \<and> DisaggXMLWriter_serialize example_env
        \<lparr>DisaggXMLWriter.path = ''out.xml'', DisaggXMLWriter.metadata = md_mag_only\<rparr>
        [example_result [''Mag'', ''Dist'']] Map.empty
     = (Inl (AssertionError ''Writer is missing 'dist_bin_edges' metadata''),
        [''out.xml'' \<mapsto> Empty])"
proof -
  have v: "validate_hazard_metadata md_mag_only = Inr ()"
    by (simp add: validate_hazard_metadata_def md_mag_only_def md_get_def)
  have labels: "dim_labels (example_result [''Mag'', ''Dist'']) = [''Mag''] @ ''Dist'' # []"
    by (simp add: example_result_def)
  have pre: "labels_have_bin_edges md_mag_only [''Mag'']"
    by (simp add: labels_have_bin_edges_def DIM_LABEL_TO_BIN_EDGE_MAP_def md_get_opt_def
        md_get_def md_mag_only_def)
  have field: "DIM_LABEL_TO_BIN_EDGE_MAP ''Dist'' = Some ''dist_bin_edges''"
    by (simp add: DIM_LABEL_TO_BIN_EDGE_MAP_def)
  have absent: "md_get md_mag_only ''dist_bin_edges'' = PNone"
    by (simp add: md_get_def md_mag_only_def)
  have none: "\<forall>r' \<in> set []. labels_have_bin_edges md_mag_only (dim_labels r')"
    by simp
  show ?thesis
    using missing_bin_edges [OF md_mag_only_iterable none labels pre field absent,
        where p = "''out.xml''" and B = example_env and rest = "[]" and files = Map.empty] v
    by simp
qed

text \<open>
  C10. A label outside Mag, Dist, Lon, Lat, Eps, TRT maps to no bin-edge field, and the
  lookup of no field is \<^verbatim>\<open>None\<close>. So a result with such a label fails the same
  assertion as a result with a missing bin-edge field: \<^verbatim>\<open>serialize\<close> raises
  \<^verbatim>\<open>AssertionError\<close> for some label of the result whose lookup is \<^verbatim>\<open>None\<close>, with the
  message for the field \<^verbatim>\<open>None\<close> when the unknown label is the first such label. There
  is no other error for labels.
\<close>

theorem unknown_label_assertion:
  assumes "bin_edges_iterable md"
    and "\<forall>r' \<in> set rs. labels_have_bin_edges md (dim_labels r')"
    and "l \<in> set (dim_labels r)"
    and "l \<notin> {''Mag'', ''Dist'', ''Lon'', ''Lat'', ''Eps'', ''TRT''}"
  shows "DIM_LABEL_TO_BIN_EDGE_MAP l = None \<and> md_get_opt md None = PNone
     \<and> (\<exists>l' \<in> set (dim_labels r).
           md_get_opt md (DIM_LABEL_TO_BIN_EDGE_MAP l') = PNone
           \<and> DisaggXMLWriter_serialize B
                \<lparr>DisaggXMLWriter.path = p, DisaggXMLWriter.metadata = md\<rparr>
                (rs @ r # rest) files
              = (Inl (AssertionError (missing_message (DIM_LABEL_TO_BIN_EDGE_MAP l'))),
                 files(p \<mapsto> Empty)))
     \<and> (\<forall>pre post. dim_labels r = pre @ l # post \<and> labels_have_bin_edges md pre \<longrightarrow>
           DisaggXMLWriter_serialize B
                \<lparr>DisaggXMLWriter.path = p, DisaggXMLWriter.metadata = md\<rparr>
                (rs @ r # rest) files
              = (Inl (AssertionError
                        (''Writer is missing '' @ [CHR 0x27] @ ''None'' @ [CHR 0x27]
                           @ '' metadata'')),
                 files(p \<mapsto> Empty)))"
proof -
  let ?w = "\<lparr>DisaggXMLWriter.path = p, DisaggXMLWriter.metadata = md\<rparr>"
  have none: "DIM_LABEL_TO_BIN_EDGE_MAP l = None"
    using assms(4) known_labels [of l] by blast
  then have absent: "md_get_opt md (DIM_LABEL_TO_BIN_EDGE_MAP l) = PNone"
    by (simp add: md_get_opt_def)
  then have "\<not> labels_have_bin_edges md (dim_labels r)"
    using assms(3) by (auto simp add: labels_have_bin_edges_def)
  then obtain l' where l': "l' \<in> set (dim_labels r)"
      "md_get_opt md (DIM_LABEL_TO_BIN_EDGE_MAP l') = PNone"
      "check_bin_edges md (dim_labels r)
          = Inl (AssertionError (missing_message (DIM_LABEL_TO_BIN_EDGE_MAP l')))"
    using check_bin_edges_some_missing by blast
  have some: "DisaggXMLWriter_serialize B ?w (rs @ r # rest) files
              = (Inl (AssertionError (missing_message (DIM_LABEL_TO_BIN_EDGE_MAP l'))),
                 files(p \<mapsto> Empty))"
    using disagg_serialize_fails [of ?w rs r _ B rest files] assms(1,2) l'(3) by simp
  have first: "DisaggXMLWriter_serialize B ?w (rs @ r # rest) files
              = (Inl (AssertionError
                        (''Writer is missing '' @ [CHR 0x27] @ ''None'' @ [CHR 0x27]
                           @ '' metadata'')),
                 files(p \<mapsto> Empty))"
    if "dim_labels r = pre @ l # post" "labels_have_bin_edges md pre" for pre post
  proof -
    have "check_bin_edges md (dim_labels r)
        = Inl (AssertionError (missing_message (DIM_LABEL_TO_BIN_EDGE_MAP l)))"
      using that absent by (simp add: check_bin_edges_first_missing)
    then show ?thesis
      using disagg_serialize_fails [of ?w rs r _ B rest files] assms(1,2) none
      by (simp add: missing_message_def)
  qed
  show ?thesis
    using none l'(1,2) some first by (auto simp add: md_get_opt_def)
qed

text \<open>Labels Mag and Depth: the error names the field \<^verbatim>\<open>None\<close>.\<close>

theorem unknown_label_assertion_witness:
  "''Depth'' \<notin> {''Mag'', ''Dist'', ''Lon'', ''Lat'', ''Eps'', ''TRT''}
   \<and> DIM_LABEL_TO_BIN_EDGE_MAP ''Depth'' = None
   \<and> DisaggXMLWriter_serialize example_env
        \<lparr>DisaggXMLWriter.path = ''out.xml'', DisaggXMLWriter.metadata = md_mag_only\<rparr>
        [example_result [''Mag'', ''Depth'']] Map.empty
     = (Inl (AssertionError ''Writer is missing 'None' metadata''),
        [''out.xml'' \<mapsto> Empty])"
proof -
  have labels: "dim_labels (example_result [''Mag'', ''Depth'']) = [''Mag''] @ ''Depth'' # []"
    by (simp add: example_result_def)
  have mem: "''Depth'' \<in> set (dim_labels (example_result [''Mag'', ''Depth'']))"
    by (simp add: example_result_def)
  have pre: "labels_have_bin_edges md_mag_only [''Mag'']"
    by (simp add: labels_have_bin_edges_def DIM_LABEL_TO_BIN_EDGE_MAP_def md_get_opt_def
        md_get_def md_mag_only_def)
  have unknown: "''Depth'' \<notin> {''Mag'', ''Dist'', ''Lon'', ''Lat'', ''Eps'', ''TRT''}"
    by simp
  have none: "\<forall>r' \<in> set []. labels_have_bin_edges md_mag_only (dim_labels r')"
    by simp
  from unknown_label_assertion [OF md_mag_only_iterable none mem unknown,
        where p = "''out.xml''" and B = example_env and rest = "[]" and files = Map.empty]
  have m: "DIM_LABEL_TO_BIN_EDGE_MAP ''Depth'' = None"
    and "\<forall>pre post. dim_labels (example_result [''Mag'', ''Depth'']) = pre @ ''Depth'' # post
           \<and> labels_have_bin_edges md_mag_only pre \<longrightarrow>
         DisaggXMLWriter_serialize example_env
            \<lparr>DisaggXMLWriter.path = ''out.xml'', DisaggXMLWriter.metadata = md_mag_only\<rparr>
            ([] @ example_result [''Mag'', ''Depth''] # []) Map.empty
          = (Inl (AssertionError
                    (''Writer is missing '' @ [CHR 0x27] @ ''None'' @ [CHR 0x27]
                       @ '' metadata'')),
             Map.empty(''out.xml'' \<mapsto> Empty))"
    by blast+
  from this(2) [rule_format, of "[''Mag'']" "[]"] labels pre
  have "DisaggXMLWriter_serialize example_env
            \<lparr>DisaggXMLWriter.path = ''out.xml'', DisaggXMLWriter.metadata = md_mag_only\<rparr>
            [example_result [''Mag'', ''Depth'']] Map.empty
          = (Inl (AssertionError ''Writer is missing 'None' metadata''),
             [''out.xml'' \<mapsto> Empty])"
    by simp
  then show ?thesis
    using m unknown by blast
qed

section \<open>The disaggregation matrix can be read back\<close>

lemma digit_val_digit: "d < 10 \<Longrightarrow> digit_val (digit d) = d"
proof -
  assume "d < 10"
  then have "d \<in> {0, 1, 2, 3, 4, 5, 6, 7, 8, 9}" by auto
  then show ?thesis by (auto simp add: digit_val_def digit_def)
qed

lemma digit_not_comma: "d < 10 \<Longrightarrow> digit d \<noteq> CHR '',''"
proof -
  assume "d < 10"
  then have "d \<in> {0, 1, 2, 3, 4, 5, 6, 7, 8, 9}" by auto
  then show ?thesis by (auto simp add: digit_def)
qed

lemma str_nat_not_Nil: "str_nat n \<noteq> []"
  by (subst str_nat.simps) simp

lemma comma_notin_str_nat: "CHR '','' \<notin> set (str_nat n)"
proof (induction n rule: str_nat.induct)
  case (1 n)
  show ?case
  proof (cases "n < 10")
    case True
    then show ?thesis by (subst str_nat.simps) (simp add: digit_not_comma [symmetric] not_sym [OF digit_not_comma])
  next
    case False
    have "n mod 10 < 10" by simp
    then have "digit (n mod 10) \<noteq> CHR '',''" by (rule digit_not_comma)
    then show ?thesis
      using False 1 by (subst str_nat.simps) auto
  qed
qed

lemma parse_nat_snoc: "parse_nat (s @ [c]) = 10 * parse_nat s + digit_val c"
  by (simp add: parse_nat_def)

lemma parse_nat_str_nat: "parse_nat (str_nat n) = n"
proof (induction n rule: str_nat.induct)
  case (1 n)
  show ?case
  proof (cases "n < 10")
    case True
    then show ?thesis
      by (subst str_nat.simps) (simp add: parse_nat_def digit_val_digit)
  next
    case False
    have "parse_nat (str_nat (n div 10) @ [digit (n mod 10)]) = 10 * (n div 10) + n mod 10"
      using False 1 by (simp add: parse_nat_snoc digit_val_digit)
    then show ?thesis
      using False by (subst str_nat.simps) simp
  qed
qed

lemma str_int_nat: "str_int (int n) = str_nat n"
  by (simp add: str_int_def)

lemma split_on_not_Nil: "split_on sep s \<noteq> []"
  by (induction s) auto

lemma split_on_no_sep: "sep \<notin> set s \<Longrightarrow> split_on sep s = [s]"
  by (induction s) auto

lemma split_on_append:
  "sep \<notin> set s \<Longrightarrow> split_on sep (s @ sep # rest) = s # split_on sep rest"
  by (induction s) auto

lemma split_on_join:
  "ss \<noteq> [] \<Longrightarrow> \<forall>s \<in> set ss. sep \<notin> set s \<Longrightarrow> split_on sep (join [sep] ss) = ss"
proof (induction ss)
  case Nil
  then show ?case by simp
next
  case (Cons s ss)
  show ?case
  proof (cases ss)
    case Nil
    then show ?thesis using Cons.prems by (simp add: split_on_no_sep)
  next
    case (Cons t ts)
    then have "split_on sep (join [sep] ss) = ss" using Cons.IH Cons.prems by simp
    then show ?thesis using Cons Cons.prems by (simp add: split_on_append)
  qed
qed

lemma join_eq_Nil: "\<forall>s \<in> set ss. s \<noteq> [] \<Longrightarrow> join sep ss = [] \<longleftrightarrow> ss = []"
  by (induction sep ss rule: join.induct) auto

lemma parse_indices_join:
  "parse_indices (join '','' (map (\<lambda>x. str_int (int x)) ns)) = ns"
proof (cases "ns = []")
  case True
  then show ?thesis by (simp add: parse_indices_def)
next
  case False
  let ?ss = "map (\<lambda>x. str_int (int x)) ns"
  have ne: "?ss \<noteq> []" using False by simp
  have nc: "\<forall>s \<in> set ?ss. CHR '','' \<notin> set s"
    by (auto simp add: str_int_nat comma_notin_str_nat)
  have nn: "\<forall>s \<in> set ?ss. s \<noteq> []"
    by (auto simp add: str_int_nat str_nat_not_Nil)
  have "join '','' ?ss \<noteq> []" using join_eq_Nil [OF nn] ne by simp
  moreover have "split_on (CHR '','') (join '','' ?ss) = ?ss"
    using split_on_join [OF ne nc] by simp
  ultimately show ?thesis
    by (simp add: parse_indices_def o_def str_int_nat parse_nat_str_nat)
qed

lemma set_product_lists_upt:
  "set (product_lists (map (\<lambda>n. [0..<n]) shp)) = {idxs. valid_index shp idxs}"
proof (induction shp)
  case Nil
  then show ?case by (auto simp add: valid_index_def)
next
  case (Cons n shp)
  show ?case
  proof (rule set_eqI)
    fix idxs
    show "idxs \<in> set (product_lists (map (\<lambda>n. [0..<n]) (n # shp)))
        \<longleftrightarrow> idxs \<in> {idxs. valid_index (n # shp) idxs}"
      using Cons by (cases idxs) (auto simp add: valid_index_def)
  qed
qed

lemma distinct_product_lists_upt:
  "distinct (product_lists (map (\<lambda>n. [0..<n]) shp))"
  by (rule distinct_product_lists) simp

lemma disagg_matrix_elem_Inr:
  assumes "disagg_matrix_elem B md result = Inr el"
  shows "el = Element ''disaggMatrix''
               [(''type'', join '','' (dim_labels result)),
                (''dims'', join '','' (map (\<lambda>x. str_int (int x)) (shape (matrix result)))),
                (''poE'', py_str B (poe result)),
                (''iml'', py_str B (DisaggResult.iml result))] None
               (map (prob_elem B) (ndenumerate (matrix result)))"
  using assms
  by (cases "check_bin_edges md (dim_labels result)") (auto simp add: disagg_matrix_elem_def)

lemma prob_elem_index:
  "parse_indices (get_attr (prob_elem B (idxs, v)) ''index'') = idxs"
  by (simp add: prob_elem_def get_attr_def parse_indices_join)

lemma prob_elem_value: "get_attr (prob_elem B (idxs, v)) ''value'' = py_str B v"
  by (simp add: prob_elem_def get_attr_def)

lemma cells_of_ndenumerate:
  "map (\<lambda>c. (parse_indices (get_attr c ''index''), get_attr c ''value''))
     (map (prob_elem B) (ndenumerate a))
   = map (\<lambda>idxs. (idxs, py_str B (item a idxs))) (product_lists (map (\<lambda>n. [0..<n]) (shape a)))"
  by (simp add: ndenumerate_def o_def prob_elem_index prob_elem_value)

lemma indices_of_ndenumerate:
  "map (\<lambda>c. parse_indices (get_attr c ''index'')) (map (prob_elem B) (ndenumerate a))
   = product_lists (map (\<lambda>n. [0..<n]) (shape a))"
  by (simp add: ndenumerate_def o_def prob_elem_index)

lemma disagg_serialize_ok:
  assumes "DisaggXMLWriter_serialize B w data files = (Inr (), files')"
  shows "\<exists>attrs els.
      files' = files(DisaggXMLWriter.path w \<mapsto> Document
                 (Element ''nrml'' [] None [Element ''disaggMatrices'' attrs None els]))
      \<and> map (disagg_matrix_elem B (DisaggXMLWriter.metadata w)) data = map Inr els"
proof -
  let ?md = "DisaggXMLWriter.metadata w"
  obtain root where tree: "disagg_tree B w data = Inr root"
    and files': "files' = files(DisaggXMLWriter.path w \<mapsto> Document root)"
    using assms
    by (cases "disagg_tree B w data")
       (auto simp add: DisaggXMLWriter_serialize_def write_document_def)
  obtain a' where a': "metadata_attrs ?md BIN_EDGE_ATTR_MAP (transform_join B)
        (mapped_attrs B ?md ATTR_MAP) = Inr a'"
    using tree
    by (cases "metadata_attrs ?md BIN_EDGE_ATTR_MAP (transform_join B)
        (mapped_attrs B ?md ATTR_MAP)") (auto simp add: disagg_tree_eq ATTR_MAP_attrs)
  obtain els where els: "collect_err (map (disagg_matrix_elem B ?md) data) = Inr els"
    using tree a'
    by (cases "collect_err (map (disagg_matrix_elem B ?md) data)")
       (auto simp add: disagg_tree_eq ATTR_MAP_attrs)
  have "root = Element ''nrml'' [] None [Element ''disaggMatrices'' a' None els]"
    using tree a' els by (simp add: disagg_tree_eq ATTR_MAP_attrs)
  moreover have "map (disagg_matrix_elem B ?md) data = map Inr els"
    using els by (simp add: collect_err_Inr_iff)
  ultimately show ?thesis using files' by blast
qed

lemma example_indices:
  "product_lists (map (\<lambda>n. [0..<n]) [1, 2]) = [[0, 0], [0, Suc 0]]"
  by code_simp

lemma disagg_elem_read_back:
  assumes "disagg_matrix_elem B md result = Inr el"
  shows "get_attr el ''dims''
          = join '','' (map (\<lambda>x. str_int (int x)) (shape (matrix result)))"
    and "decode_shape el = shape (matrix result)"
    and "map (\<lambda>c. parse_indices (get_attr c ''index'')) (children el)
            = product_lists (map (\<lambda>n. [0..<n]) (shape (matrix result)))"
    and "distinct (map (\<lambda>c. parse_indices (get_attr c ''index'')) (children el))"
    and "set (map (\<lambda>c. parse_indices (get_attr c ''index'')) (children el))
            = {idxs. valid_index (shape (matrix result)) idxs}"
    and "decode_cells el
            = (\<lambda>idxs. if valid_index (shape (matrix result)) idxs
                      then Some (py_str B (item (matrix result) idxs)) else None)"
proof -
  note el = disagg_matrix_elem_Inr [OF assms]
  let ?m = "matrix result"
  let ?ixs = "product_lists (map (\<lambda>n. [0..<n]) (shape ?m))"
  show dims: "get_attr el ''dims'' = join '','' (map (\<lambda>x. str_int (int x)) (shape ?m))"
    by (simp add: el get_attr_def)
  show "decode_shape el = shape ?m"
    by (simp add: decode_shape_def dims parse_indices_join)
  show ixs: "map (\<lambda>c. parse_indices (get_attr c ''index'')) (children el) = ?ixs"
    by (simp only: el xml.sel indices_of_ndenumerate)
  show "distinct (map (\<lambda>c. parse_indices (get_attr c ''index'')) (children el))"
    by (simp only: ixs distinct_product_lists_upt)
  show "set (map (\<lambda>c. parse_indices (get_attr c ''index'')) (children el))
            = {idxs. valid_index (shape ?m) idxs}"
    by (simp only: ixs set_product_lists_upt)
  have "decode_cells el = map_of (map (\<lambda>idxs. (idxs, py_str B (item ?m idxs))) ?ixs)"
    by (simp only: decode_cells_def el xml.sel cells_of_ndenumerate)
  also have "\<dots> = (\<lambda>idxs. if idxs \<in> set ?ixs then Some (py_str B (item ?m idxs)) else None)"
    by (simp add: map_of_map_restrict restrict_map_def fun_eq_iff)
  finally show "decode_cells el
            = (\<lambda>idxs. if valid_index (shape ?m) idxs
                      then Some (py_str B (item ?m idxs)) else None)"
    by (simp add: set_product_lists_upt)
qed



lemma values_read_back:
  assumes cells: "decode_cells el
            = (\<lambda>idxs. if valid_index shp idxs then Some (py_str B (item m idxs)) else None)"
    and inj: "inj_on (py_str B) V"
    and mem: "\<forall>idxs. valid_index shp idxs \<longrightarrow> item m idxs \<in> V"
    and v: "valid_index shp idxs"
  shows "map_option (the_inv_into V (py_str B)) (decode_cells el idxs) = Some (item m idxs)"
  using v mem by (simp add: cells the_inv_into_f_f [OF inj])

text \<open>
  C7 (as amended). When \<^verbatim>\<open>DisaggXMLWriter.serialize\<close> succeeds, the document holds one
  \<^verbatim>\<open>disaggMatrix\<close> element per result, in order. For each such element: the \<^verbatim>\<open>dims\<close>
  attribute is the comma-joined shape and reads back as the shape; the \<^verbatim>\<open>index\<close>
  attributes of the cells, read back in document order, are the multi-indices of the
  shape in row-major (lexicographic) order, each exactly once, and they are all the
  multi-indices within the shape; and reading the cells back as a table from multi-index
  to value text gives, at every multi-index within the shape, the \<^verbatim>\<open>str\<close> text of the
  matrix value at that position, and nothing elsewhere. So the shape and the position of
  every cell are reconstructed exactly, and the values up to their \<^verbatim>\<open>str\<close> text: the
  matrix values themselves are recovered when \<^verbatim>\<open>str\<close> is injective on a set \<open>V\<close> that
  holds them. The enumeration of the cells is \<open>ndenumerate\<close>, modelled from the spec.
\<close>

theorem disagg_round_trip:
  "(DisaggXMLWriter_serialize B w data files = (Inr (), files') \<longrightarrow>
      (\<exists>attrs els.
         files' = files(DisaggXMLWriter.path w \<mapsto> Document
                    (Element ''nrml'' [] None [Element ''disaggMatrices'' attrs None els]))
         \<and> map (disagg_matrix_elem B (DisaggXMLWriter.metadata w)) data = map Inr els))
   \<and> (disagg_matrix_elem B md result = Inr el \<longrightarrow>
        get_attr el ''dims''
          = join '','' (map (\<lambda>x. str_int (int x)) (shape (matrix result)))
        \<and> decode_shape el = shape (matrix result)
        \<and> map (\<lambda>c. parse_indices (get_attr c ''index'')) (children el)
            = product_lists (map (\<lambda>n. [0..<n]) (shape (matrix result)))
        \<and> distinct (map (\<lambda>c. parse_indices (get_attr c ''index'')) (children el))
        \<and> set (map (\<lambda>c. parse_indices (get_attr c ''index'')) (children el))
            = {idxs. valid_index (shape (matrix result)) idxs}
        \<and> decode_cells el
            = (\<lambda>idxs. if valid_index (shape (matrix result)) idxs
                      then Some (py_str B (item (matrix result) idxs)) else None)
        \<and> (inj_on (py_str B) V
             \<and> (\<forall>idxs. valid_index (shape (matrix result)) idxs
                    \<longrightarrow> item (matrix result) idxs \<in> V) \<longrightarrow>
            (\<forall>idxs. valid_index (shape (matrix result)) idxs \<longrightarrow>
               map_option (the_inv_into V (py_str B)) (decode_cells el idxs)
                 = Some (item (matrix result) idxs))))"
proof -
  have ser: "\<exists>attrs els.
         files' = files(DisaggXMLWriter.path w \<mapsto> Document
                    (Element ''nrml'' [] None [Element ''disaggMatrices'' attrs None els]))
         \<and> map (disagg_matrix_elem B (DisaggXMLWriter.metadata w)) data = map Inr els"
    if "DisaggXMLWriter_serialize B w data files = (Inr (), files')"
    using that by (rule disagg_serialize_ok)
  have vals: "\<forall>idxs. valid_index (shape (matrix result)) idxs \<longrightarrow>
               map_option (the_inv_into V (py_str B)) (decode_cells el idxs)
                 = Some (item (matrix result) idxs)"
    if "disagg_matrix_elem B md result = Inr el"
      and "inj_on (py_str B) V
             \<and> (\<forall>idxs. valid_index (shape (matrix result)) idxs
                    \<longrightarrow> item (matrix result) idxs \<in> V)"
  proof (intro allI impI)
    fix idxs assume "valid_index (shape (matrix result)) idxs"
    with that(2) show "map_option (the_inv_into V (py_str B)) (decode_cells el idxs)
                 = Some (item (matrix result) idxs)"
      by (intro values_read_back [OF disagg_elem_read_back(6) [OF that(1)]]) simp_all
  qed
  show ?thesis
    by (intro conjI impI)
       (erule ser disagg_elem_read_back vals, (assumption)?)+
qed

text \<open>
  C7 as stated fails: on Python 2 the matrices \<^verbatim>\<open>[0.3]\<close> and \<^verbatim>\<open>[0.1 + 0.2]\<close> have the
  same shape and different values, and \<^verbatim>\<open>serialize\<close> writes the same document for both,
  so the document does not determine the value at position 0.
\<close>

theorem round_trip_values_counterexample:
  "fst (DisaggXMLWriter_serialize python2_env
         \<lparr>DisaggXMLWriter.path = ''out.xml'', DisaggXMLWriter.metadata = md_mag_only\<rparr>
         [result_of_value ''0.3''] Map.empty) = Inr ()
   \<and> DisaggXMLWriter_serialize python2_env
         \<lparr>DisaggXMLWriter.path = ''out.xml'', DisaggXMLWriter.metadata = md_mag_only\<rparr>
         [result_of_value ''0.3''] Map.empty
     = DisaggXMLWriter_serialize python2_env
         \<lparr>DisaggXMLWriter.path = ''out.xml'', DisaggXMLWriter.metadata = md_mag_only\<rparr>
         [result_of_value ''0.30000000000000004''] Map.empty
   \<and> shape (matrix (result_of_value ''0.3''))
     = shape (matrix (result_of_value ''0.30000000000000004''))
   \<and> item (matrix (result_of_value ''0.3'')) [0]
     \<noteq> item (matrix (result_of_value ''0.30000000000000004'')) [0]"
proof -
  let ?w = "\<lparr>DisaggXMLWriter.path = ''out.xml'', DisaggXMLWriter.metadata = md_mag_only\<rparr>"
  have chk: "\<And>r. check_bin_edges md_mag_only (dim_labels (result_of_value r)) = Inr ()"
    by (simp add: result_of_value_def DIM_LABEL_TO_BIN_EDGE_MAP_def md_get_opt_def
        md_get_def md_mag_only_def)
  have same: "disagg_matrix_elem python2_env md_mag_only (result_of_value ''0.3'')
      = disagg_matrix_elem python2_env md_mag_only (result_of_value ''0.30000000000000004'')"
    by (simp add: disagg_matrix_elem_def chk)
       (simp add: result_of_value_def ndenumerate_def prob_elem_def py_str_def python2_env_def)
  obtain el where el: "disagg_matrix_elem python2_env md_mag_only (result_of_value ''0.3'') = Inr el"
    by (simp add: disagg_matrix_elem_def chk)
  obtain a' where a': "metadata_attrs md_mag_only BIN_EDGE_ATTR_MAP (transform_join python2_env)
        (mapped_attrs python2_env md_mag_only ATTR_MAP) = Inr a'"
    using metadata_attrs_join_ok [of BIN_EDGE_ATTR_MAP md_mag_only python2_env]
      md_mag_only_iterable
    unfolding bin_edges_iterable_def by blast
  have ok: "fst (DisaggXMLWriter_serialize python2_env ?w [result_of_value ''0.3''] Map.empty)
      = Inr ()"
    using el a'
    by (simp add: DisaggXMLWriter_serialize_def write_document_def disagg_tree_eq ATTR_MAP_attrs)
  have same': "disagg_matrix_elem python2_env (DisaggXMLWriter.metadata ?w)
        (result_of_value ''0.3'')
      = disagg_matrix_elem python2_env (DisaggXMLWriter.metadata ?w)
        (result_of_value ''0.30000000000000004'')"
    using same by simp
  have eq: "DisaggXMLWriter_serialize python2_env ?w [result_of_value ''0.3''] Map.empty
     = DisaggXMLWriter_serialize python2_env ?w [result_of_value ''0.30000000000000004''] Map.empty"
    by (simp only: DisaggXMLWriter_serialize_def disagg_tree_eq list.map same')
  have sh: "shape (matrix (result_of_value ''0.3''))
     = shape (matrix (result_of_value ''0.30000000000000004''))"
    by (simp add: result_of_value_def)
  have ne: "item (matrix (result_of_value ''0.3'')) [0]
     \<noteq> item (matrix (result_of_value ''0.30000000000000004'')) [0]"
    by (simp add: result_of_value_def)
  show ?thesis
    by (intro conjI) (rule ok eq sh ne)+
qed

text \<open>A 1 by 2 matrix with values 0.25 and 0.75.\<close>

theorem disagg_round_trip_witness:
  "\<exists>el files'.
      DisaggXMLWriter_serialize example_env
        \<lparr>DisaggXMLWriter.path = ''out.xml'', DisaggXMLWriter.metadata = md_mag_only\<rparr>
        [example_result [''Mag'']] Map.empty = (Inr (), files')
      \<and> (\<exists>attrs. files' = [''out.xml'' \<mapsto> Document
            (Element ''nrml'' [] None [Element ''disaggMatrices'' attrs None [el]])])
      \<and> disagg_matrix_elem example_env md_mag_only (example_result [''Mag'']) = Inr el
      \<and> get_attr el ''dims'' = ''1,2''
      \<and> decode_shape el = [1, 2]
      \<and> map (\<lambda>c. parse_indices (get_attr c ''index'')) (children el) = [[0, 0], [0, 1]]
      \<and> decode_cells el [0, 0] = Some ''0.25''
      \<and> decode_cells el [0, 1] = Some ''0.75''
      \<and> decode_cells el [1, 0] = None
      \<and> inj_on (py_str example_env) {PFloat ''0.25'', PFloat ''0.75''}
      \<and> map_option (the_inv_into {PFloat ''0.25'', PFloat ''0.75''} (py_str example_env))
            (decode_cells el [0, 0]) = Some (PFloat ''0.25'')
      \<and> map_option (the_inv_into {PFloat ''0.25'', PFloat ''0.75''} (py_str example_env))
            (decode_cells el [0, 1]) = Some (PFloat ''0.75'')"
proof -
  let ?w = "\<lparr>DisaggXMLWriter.path = ''out.xml'', DisaggXMLWriter.metadata = md_mag_only\<rparr>"
  let ?r = "example_result [''Mag'']"
  let ?V = "{PFloat ''0.25'', PFloat ''0.75''} :: string pyval set"
  have chk: "check_bin_edges md_mag_only (dim_labels ?r) = Inr ()"
    by (simp add: example_result_def DIM_LABEL_TO_BIN_EDGE_MAP_def md_get_opt_def
        md_get_def md_mag_only_def)
  obtain el where el: "disagg_matrix_elem example_env md_mag_only ?r = Inr el"
    using chk by (simp add: disagg_matrix_elem_def)
  obtain a' where a': "metadata_attrs md_mag_only BIN_EDGE_ATTR_MAP (transform_join example_env)
        (mapped_attrs example_env md_mag_only ATTR_MAP) = Inr a'"
    using metadata_attrs_join_ok [of BIN_EDGE_ATTR_MAP md_mag_only example_env]
      md_mag_only_iterable
    unfolding bin_edges_iterable_def by blast
  obtain files' where ser: "DisaggXMLWriter_serialize example_env ?w [?r] Map.empty = (Inr (), files')"
    using el a'
    by (simp add: DisaggXMLWriter_serialize_def write_document_def disagg_tree_eq ATTR_MAP_attrs)
  note rt = disagg_round_trip [where B = example_env and w = ?w and data = "[?r]"
      and files = Map.empty and files' = files' and md = md_mag_only and result = ?r
      and el = el and V = ?V]
  note doc = rt [THEN conjunct1, THEN mp, OF ser]
  note parts = rt [THEN conjunct2, THEN mp, OF el]
  from doc obtain attrs els where
    f: "files' = [''out.xml'' \<mapsto> Document
            (Element ''nrml'' [] None [Element ''disaggMatrices'' attrs None els])]"
    and m: "map (disagg_matrix_elem example_env md_mag_only) [?r] = map Inr els"
    by auto
  have els: "els = [el]" using m el by auto
  have r: "\<And>x. float_str example_env x = x" by (simp add: example_env_def)
  have shp: "shape (matrix ?r) = [1, 2]"
    by (simp add: example_result_def example_matrix_def)
  have v: "valid_index [1, 2] [0, 0]" "valid_index [1, 2] [0, 1]" "\<not> valid_index [1, 2] [1, 0]"
    by (simp_all add: valid_index_def)
  have it: "item (matrix ?r) [0, 0] = PFloat ''0.25''" "item (matrix ?r) [0, 1] = PFloat ''0.75''"
    by (simp_all add: example_result_def example_matrix_def)
  have table: "decode_cells el
            = (\<lambda>idxs. if valid_index (shape (matrix ?r)) idxs
                      then Some (py_str example_env (item (matrix ?r) idxs)) else None)"
    using parts by blast
  have cells: "decode_cells el [0, 0] = Some ''0.25''" "decode_cells el [0, 1] = Some ''0.75''"
      "decode_cells el [1, 0] = None"
    using v by (simp_all add: table shp example_result_def example_matrix_def py_str_def r)
  have "get_attr el ''dims''
      = join '','' (map (\<lambda>x. str_int (int x)) (shape (matrix ?r)))"
    and ds: "decode_shape el = shape (matrix ?r)"
    using parts by blast+
  then have dims: "get_attr el ''dims'' = ''1,2''" "decode_shape el = [1, 2]"
    by (simp_all add: shp str_int_small)
  have "map (\<lambda>c. parse_indices (get_attr c ''index'')) (children el)
      = product_lists (map (\<lambda>n. [0..<n]) (shape (matrix ?r)))"
    using parts by blast
  then have ixs: "map (\<lambda>c. parse_indices (get_attr c ''index'')) (children el)
      = [[0, 0], [0, 1]]"
    by (simp only: shp example_indices) simp
  have inj: "inj_on (py_str example_env) ?V"
    by (simp add: py_str_def r)
  have mem: "\<forall>idxs. valid_index (shape (matrix ?r)) idxs \<longrightarrow> item (matrix ?r) idxs \<in> ?V"
    by (simp add: example_result_def example_matrix_def)
  have "inj_on (py_str example_env) ?V
         \<and> (\<forall>idxs. valid_index (shape (matrix ?r)) idxs \<longrightarrow> item (matrix ?r) idxs \<in> ?V) \<longrightarrow>
        (\<forall>idxs. valid_index (shape (matrix ?r)) idxs \<longrightarrow>
           map_option (the_inv_into ?V (py_str example_env)) (decode_cells el idxs)
             = Some (item (matrix ?r) idxs))"
    using parts by blast
  then have "\<forall>idxs. valid_index (shape (matrix ?r)) idxs \<longrightarrow>
           map_option (the_inv_into ?V (py_str example_env)) (decode_cells el idxs)
             = Some (item (matrix ?r) idxs)"
    using inj mem by blast
  then have vals:
    "map_option (the_inv_into ?V (py_str example_env)) (decode_cells el [0, 0])
       = Some (PFloat ''0.25'')"
    "map_option (the_inv_into ?V (py_str example_env)) (decode_cells el [0, 1])
       = Some (PFloat ''0.75'')"
    using v(1,2) it unfolding shp by metis+
  have f': "\<exists>attrs. files' = [''out.xml'' \<mapsto> Document
            (Element ''nrml'' [] None [Element ''disaggMatrices'' attrs None [el]])]"
    using f els by blast
  show ?thesis
    by (intro exI [of _ el] exI [of _ files'] conjI) (rule ser f' el dims cells ixs inj vals)+
qed

end
